theory Spec2Isabelle
  imports Main
begin

section \<open>Python values\<close>

text \<open>
  Python text is embedded as \<^typ>\<open>string\<close>. The source files are UTF-8; text outside
  ASCII (the Arabic templates, the emoji, the bullet) is given by the bytes of its UTF-8
  encoding, so ASCII text reads as it does in the source.

  A \<open>dict\<close> display is an association list in the order of the display; subscription
  \<open>d[k]\<close> is \<open>getitem\<close>, which raises \<open>KeyError\<close> on a missing key.
\<close>

datatype exn =
    TelegramBadRequest
  | OtherException string
  | ValueError string
  | KeyError string

definition getitem :: "(string \<times> 'v) list \<Rightarrow> string \<Rightarrow> exn + 'v" where
  "getitem d k = (case map_of d k of None \<Rightarrow> Inl (KeyError k) | Some v \<Rightarrow> Inr v)"

definition keys :: "('k \<times> 'v) list \<Rightarrow> 'k list" where
  "keys d = map fst d"

section \<open>app/bot/utils/texts.py\<close>

definition SUPPORTED_LANGUAGES :: "(string \<times> string) list" where
  "SUPPORTED_LANGUAGES =
  [(''en'',
      [CHR 0xF0, CHR 0x9F, CHR 0x87, CHR 0xAC, CHR 0xF0, CHR 0x9F, CHR 0x87, CHR 0xA7] @
      '' English''),
   (''ar'',
      [CHR 0xF0, CHR 0x9F, CHR 0x87, CHR 0xB8, CHR 0xF0, CHR 0x9F, CHR 0x87, CHR 0xBE] @
      '' '' @
      [CHR 0xD8, CHR 0xA7, CHR 0xD9, CHR 0x84, CHR 0xD8, CHR 0xB9, CHR 0xD8, CHR 0xB1,
       CHR 0xD8, CHR 0xA8, CHR 0xD9, CHR 0x8A, CHR 0xD8, CHR 0xA9])]"

text \<open>
  \<open>class Text\<close>: the only attribute is \<open>language_code\<close>. The module global
  \<open>SUPPORTED_LANGUAGES\<close> that \<open>__init__\<close> reads is the first argument of \<open>Text_init\<close>.
\<close>

record Text =
  language_code :: string

definition Text_init :: "(string \<times> string) list \<Rightarrow> string \<Rightarrow> Text" where
  "Text_init langs code =
     \<lparr>language_code = (if code \<in> set (keys langs) then code else ''en'')\<rparr>"

text \<open>
  \<open>Text.get\<close>: \<open>self.data[self.language_code][code]\<close>. The abstract property \<open>data\<close> is
  what a subclass supplies; it is the first argument.
\<close>

definition get ::
  "('a Text_scheme \<Rightarrow> (string \<times> (string \<times> string) list) list) \<Rightarrow>
   'a Text_scheme \<Rightarrow> string \<Rightarrow> exn + string" where
  "get data self code =
     (case getitem (data self) (language_code self) of
        Inl e \<Rightarrow> Inl e
      | Inr texts \<Rightarrow> getitem texts code)"

text \<open>
  \<open>TextMessage.data\<close>. \<open>hbold\<close> is aiogram's markdown helper, a function of the library
  and not of this repository: it is a parameter.
\<close>

definition TextMessage_data ::
  "(string \<Rightarrow> string) \<Rightarrow> 'a Text_scheme \<Rightarrow> (string \<times> (string \<times> string) list) list" where
  "TextMessage_data hbold self =
    [(''en'',
      [(''select_language'',
         [CHR 0xF0, CHR 0x9F, CHR 0x91, CHR 0x8B] @ '' <b>Hello</b>, '' @
         hbold ''{full_name}'' @
         ''!\<newline>\<newline>'' @ ''Select language:''),
       (''change_language'',
         ''<b>Select language:</b>''),
       (''main_menu'',
         ''<b>Write your question</b>, and we will answer you as soon as possible:''),
       (''message_sent'',
         ''<b>Message sent!</b> Expect a response.''),
       (''message_edited'',
         ''<b>The message was edited only in your chat.</b> To send an edited message, send it as a new message.''),
       (''user_started_bot'',
         ''User '' @
         hbold ''{name}'' @
         '' started the bot!\<newline>\<newline>'' @
         ''List of available commands:\<newline>\<newline>'' @ [CHR 0xE2, CHR 0x80, CHR 0xA2] @
         '' /ban\<newline>'' @
         ''Block/Unblock user<blockquote>Block the user if you do not want to receive messages from him.</blockquote>\<newline>\<newline>'' @
         [CHR 0xE2, CHR 0x80, CHR 0xA2] @ '' /silent\<newline>'' @
         ''Activate/Deactivate silent mode<blockquote>When silent mode is enabled, messages are not sent to the user.</blockquote>\<newline>\<newline>'' @
         [CHR 0xE2, CHR 0x80, CHR 0xA2] @ '' /information\<newline>'' @
         ''User information<blockquote>Receive a message with basic information about the user.</blockquote>''),
       (''user_restarted_bot'',
         ''User '' @
         hbold ''{name}'' @
         '' restarted the bot!''),
       (''user_stopped_bot'',
         ''User '' @
         hbold ''{name}'' @
         '' stopped the bot!''),
       (''user_blocked'',
         ''<b>User blocked!</b> Messages from the user are not accepted.''),
       (''user_unblocked'',
         ''<b>User unblocked!</b> Messages from the user are being accepted again.''),
       (''blocked_by_user'',
         ''<b>Message not sent!</b> The bot has been blocked by the user.''),
       (''user_information'',
         ''<b>ID:</b>\<newline>'' @ ''- <code>{id}</code>\<newline>'' @
         ''<b>Name:</b>\<newline>'' @ ''- {full_name}\<newline>'' @
         ''<b>Status:</b>\<newline>'' @ ''- {state}\<newline>'' @
         ''<b>Username:</b>\<newline>'' @ ''- {username}\<newline>'' @
         ''<b>Blocked:</b>\<newline>'' @ ''- {is_banned}\<newline>'' @
         ''<b>Registration date:</b>\<newline>'' @ ''- {created_at}''),
       (''message_not_sent'',
         ''<b>Message not sent!</b> An unexpected error occurred.''),
       (''message_sent_to_user'',
         ''<b>Message sent to user!</b>''),
       (''silent_mode_enabled'',
         ''<b>Silent mode activated!</b> Messages will not be delivered to the user.''),
       (''silent_mode_disabled'',
         ''<b>Silent mode deactivated!</b> The user will receive all messages.'')]),
     (''ar'',
      [(''select_language'',
         [CHR 0xF0, CHR 0x9F, CHR 0x91, CHR 0x8B] @ '' <b>'' @
         [CHR 0xD9, CHR 0x85, CHR 0xD8, CHR 0xB1, CHR 0xD8, CHR 0xAD, CHR 0xD8, CHR 0xA8,
          CHR 0xD8, CHR 0xA7, CHR 0xD9, CHR 0x8B] @
         ''</b>'' @ [CHR 0xD8, CHR 0x8C] @ '' '' @
         hbold ''{full_name}'' @
         ''!\<newline>\<newline>'' @
         [CHR 0xD8, CHR 0xA7, CHR 0xD8, CHR 0xAE, CHR 0xD8, CHR 0xAA, CHR 0xD8, CHR 0xB1] @
         '' '' @
         [CHR 0xD8, CHR 0xA7, CHR 0xD9, CHR 0x84, CHR 0xD9, CHR 0x84, CHR 0xD8, CHR 0xBA,
          CHR 0xD8, CHR 0xA9] @
         '':''),
       (''change_language'',
         ''<b>'' @
         [CHR 0xD8, CHR 0xA7, CHR 0xD8, CHR 0xAE, CHR 0xD8, CHR 0xAA, CHR 0xD8, CHR 0xB1] @
         '' '' @
         [CHR 0xD8, CHR 0xA7, CHR 0xD9, CHR 0x84, CHR 0xD9, CHR 0x84, CHR 0xD8, CHR 0xBA,
          CHR 0xD8, CHR 0xA9] @
         '':</b>''),
       (''main_menu'',
         ''<b>'' @
         [CHR 0xD8, CHR 0xA7, CHR 0xD9, CHR 0x83, CHR 0xD8, CHR 0xAA, CHR 0xD8, CHR 0xA8] @
         '' '' @
         [CHR 0xD8, CHR 0xB3, CHR 0xD8, CHR 0xA4, CHR 0xD8, CHR 0xA7, CHR 0xD9, CHR 0x84,
          CHR 0xD9, CHR 0x83] @
         ''</b>'' @ [CHR 0xD8, CHR 0x8C] @ '' '' @
         [CHR 0xD9, CHR 0x88, CHR 0xD8, CHR 0xB3, CHR 0xD9, CHR 0x86, CHR 0xD8, CHR 0xAC,
          CHR 0xD9, CHR 0x8A, CHR 0xD8, CHR 0xA8, CHR 0xD9, CHR 0x83] @
         '' '' @ [CHR 0xD9, CHR 0x81, CHR 0xD9, CHR 0x8A] @ '' '' @
         [CHR 0xD8, CHR 0xA3, CHR 0xD9, CHR 0x82, CHR 0xD8, CHR 0xB1, CHR 0xD8, CHR 0xA8] @
         '' '' @ [CHR 0xD9, CHR 0x88, CHR 0xD9, CHR 0x82, CHR 0xD8, CHR 0xAA] @ '' '' @
         [CHR 0xD9, CHR 0x85, CHR 0xD9, CHR 0x85, CHR 0xD9, CHR 0x83, CHR 0xD9, CHR 0x86] @ '':''),
       (''message_sent'',
         ''<b>'' @ [CHR 0xD8, CHR 0xAA, CHR 0xD9, CHR 0x85] @ '' '' @
         [CHR 0xD8, CHR 0xA5, CHR 0xD8, CHR 0xB1, CHR 0xD8, CHR 0xB3, CHR 0xD8, CHR 0xA7,
          CHR 0xD9, CHR 0x84] @
         '' '' @
         [CHR 0xD8, CHR 0xA7, CHR 0xD9, CHR 0x84, CHR 0xD8, CHR 0xB1, CHR 0xD8, CHR 0xB3,
          CHR 0xD8, CHR 0xA7, CHR 0xD9, CHR 0x84, CHR 0xD8, CHR 0xA9] @
         ''!</b> '' @
         [CHR 0xD8, CHR 0xA7, CHR 0xD9, CHR 0x86, CHR 0xD8, CHR 0xAA, CHR 0xD8, CHR 0xB8,
          CHR 0xD8, CHR 0xB1] @
         '' '' @
         [CHR 0xD8, CHR 0xA7, CHR 0xD9, CHR 0x84, CHR 0xD8, CHR 0xB1, CHR 0xD8, CHR 0xAF] @ ''.''),
       (''message_edited'',
         ''<b>'' @ [CHR 0xD8, CHR 0xAA, CHR 0xD9, CHR 0x85] @ '' '' @
         [CHR 0xD8, CHR 0xAA, CHR 0xD8, CHR 0xB9, CHR 0xD8, CHR 0xAF, CHR 0xD9, CHR 0x8A,
          CHR 0xD9, CHR 0x84] @
         '' '' @
         [CHR 0xD8, CHR 0xA7, CHR 0xD9, CHR 0x84, CHR 0xD8, CHR 0xB1, CHR 0xD8, CHR 0xB3,
          CHR 0xD8, CHR 0xA7, CHR 0xD9, CHR 0x84, CHR 0xD8, CHR 0xA9] @
         '' '' @ [CHR 0xD9, CHR 0x81, CHR 0xD9, CHR 0x8A] @ '' '' @
         [CHR 0xD9, CHR 0x85, CHR 0xD8, CHR 0xAD, CHR 0xD8, CHR 0xA7, CHR 0xD8, CHR 0xAF,
          CHR 0xD8, CHR 0xAB, CHR 0xD8, CHR 0xAA, CHR 0xD9, CHR 0x83] @
         '' '' @ [CHR 0xD9, CHR 0x81, CHR 0xD9, CHR 0x82, CHR 0xD8, CHR 0xB7] @ ''.</b> '' @
         [CHR 0xD9, CHR 0x84, CHR 0xD8, CHR 0xA5, CHR 0xD8, CHR 0xB1, CHR 0xD8, CHR 0xB3,
          CHR 0xD8, CHR 0xA7, CHR 0xD9, CHR 0x84] @
         '' '' @
         [CHR 0xD8, CHR 0xA7, CHR 0xD9, CHR 0x84, CHR 0xD8, CHR 0xB1, CHR 0xD8, CHR 0xB3,
          CHR 0xD8, CHR 0xA7, CHR 0xD9, CHR 0x84, CHR 0xD8, CHR 0xA9] @
         '' '' @
         [CHR 0xD8, CHR 0xA7, CHR 0xD9, CHR 0x84, CHR 0xD9, CHR 0x85, CHR 0xD8, CHR 0xB9,
          CHR 0xD8, CHR 0xAF, CHR 0xD9, CHR 0x84, CHR 0xD8, CHR 0xA9, CHR 0xD8, CHR 0x8C] @
         '' '' @
         [CHR 0xD8, CHR 0xA3, CHR 0xD8, CHR 0xB1, CHR 0xD8, CHR 0xB3, CHR 0xD9, CHR 0x84,
          CHR 0xD9, CHR 0x87, CHR 0xD8, CHR 0xA7] @
         '' '' @
         [CHR 0xD9, CHR 0x83, CHR 0xD8, CHR 0xB1, CHR 0xD8, CHR 0xB3, CHR 0xD8, CHR 0xA7,
          CHR 0xD9, CHR 0x84, CHR 0xD8, CHR 0xA9] @
         '' '' @
         [CHR 0xD8, CHR 0xAC, CHR 0xD8, CHR 0xAF, CHR 0xD9, CHR 0x8A, CHR 0xD8, CHR 0xAF,
          CHR 0xD8, CHR 0xA9] @
         ''.''),
       (''user_started_bot'',
         [CHR 0xD8, CHR 0xA7, CHR 0xD9, CHR 0x84, CHR 0xD9, CHR 0x85, CHR 0xD8, CHR 0xB3,
          CHR 0xD8, CHR 0xAA, CHR 0xD8, CHR 0xAE, CHR 0xD8, CHR 0xAF, CHR 0xD9, CHR 0x85] @
         '' '' @
         hbold ''{name}'' @
         '' '' @ [CHR 0xD8, CHR 0xA8, CHR 0xD8, CHR 0xAF, CHR 0xD8, CHR 0xA3] @ '' '' @
         [CHR 0xD8, CHR 0xA7, CHR 0xD9, CHR 0x84, CHR 0xD8, CHR 0xA8, CHR 0xD9, CHR 0x88,
          CHR 0xD8, CHR 0xAA] @
         ''!\<newline>\<newline>'' @
         [CHR 0xD9, CHR 0x82, CHR 0xD8, CHR 0xA7, CHR 0xD8, CHR 0xA6, CHR 0xD9, CHR 0x85,
          CHR 0xD8, CHR 0xA9] @
         '' '' @
         [CHR 0xD8, CHR 0xA7, CHR 0xD9, CHR 0x84, CHR 0xD8, CHR 0xA3, CHR 0xD9, CHR 0x88,
          CHR 0xD8, CHR 0xA7, CHR 0xD9, CHR 0x85, CHR 0xD8, CHR 0xB1] @
         '' '' @
         [CHR 0xD8, CHR 0xA7, CHR 0xD9, CHR 0x84, CHR 0xD9, CHR 0x85, CHR 0xD8, CHR 0xAA,
          CHR 0xD8, CHR 0xA7, CHR 0xD8, CHR 0xAD, CHR 0xD8, CHR 0xA9] @
         '':\<newline>\<newline>'' @ [CHR 0xE2, CHR 0x80, CHR 0xA2] @ '' /ban\<newline>'' @
         [CHR 0xD8, CHR 0xAD, CHR 0xD8, CHR 0xB8, CHR 0xD8, CHR 0xB1] @ ''/'' @
         [CHR 0xD8, CHR 0xA5, CHR 0xD9, CHR 0x84, CHR 0xD8, CHR 0xBA, CHR 0xD8, CHR 0xA7,
          CHR 0xD8, CHR 0xA1] @
         '' '' @ [CHR 0xD8, CHR 0xAD, CHR 0xD8, CHR 0xB8, CHR 0xD8, CHR 0xB1] @ '' '' @
         [CHR 0xD8, CHR 0xA7, CHR 0xD9, CHR 0x84, CHR 0xD9, CHR 0x85, CHR 0xD8, CHR 0xB3,
          CHR 0xD8, CHR 0xAA, CHR 0xD8, CHR 0xAE, CHR 0xD8, CHR 0xAF, CHR 0xD9, CHR 0x85] @
         ''<blockquote>'' @
         [CHR 0xD8, CHR 0xA7, CHR 0xD8, CHR 0xAD, CHR 0xD8, CHR 0xB8, CHR 0xD8, CHR 0xB1] @
         '' '' @
         [CHR 0xD8, CHR 0xA7, CHR 0xD9, CHR 0x84, CHR 0xD9, CHR 0x85, CHR 0xD8, CHR 0xB3,
          CHR 0xD8, CHR 0xAA, CHR 0xD8, CHR 0xAE, CHR 0xD8, CHR 0xAF, CHR 0xD9, CHR 0x85] @
         '' '' @ [CHR 0xD8, CHR 0xA5, CHR 0xD8, CHR 0xB0, CHR 0xD8, CHR 0xA7] @ '' '' @
         [CHR 0xD9, CHR 0x83, CHR 0xD9, CHR 0x86, CHR 0xD8, CHR 0xAA] @ '' '' @
         [CHR 0xD9, CHR 0x84, CHR 0xD8, CHR 0xA7] @ '' '' @
         [CHR 0xD8, CHR 0xAA, CHR 0xD8, CHR 0xB1, CHR 0xD9, CHR 0x8A, CHR 0xD8, CHR 0xAF] @
         '' '' @
         [CHR 0xD8, CHR 0xA7, CHR 0xD8, CHR 0xB3, CHR 0xD8, CHR 0xAA, CHR 0xD9, CHR 0x82,
          CHR 0xD8, CHR 0xA8, CHR 0xD8, CHR 0xA7, CHR 0xD9, CHR 0x84] @
         '' '' @
         [CHR 0xD8, CHR 0xB1, CHR 0xD8, CHR 0xB3, CHR 0xD8, CHR 0xA7, CHR 0xD8, CHR 0xA6,
          CHR 0xD9, CHR 0x84] @
         '' '' @ [CHR 0xD9, CHR 0x85, CHR 0xD9, CHR 0x86, CHR 0xD9, CHR 0x87] @
         ''.</blockquote>\<newline>\<newline>'' @ [CHR 0xE2, CHR 0x80, CHR 0xA2] @
         '' /silent\<newline>'' @
         [CHR 0xD8, CHR 0xAA, CHR 0xD9, CHR 0x81, CHR 0xD8, CHR 0xB9, CHR 0xD9, CHR 0x8A,
          CHR 0xD9, CHR 0x84] @
         ''/'' @
         [CHR 0xD8, CHR 0xA5, CHR 0xD9, CHR 0x84, CHR 0xD8, CHR 0xBA, CHR 0xD8, CHR 0xA7,
          CHR 0xD8, CHR 0xA1] @
         '' '' @
         [CHR 0xD8, CHR 0xA7, CHR 0xD9, CHR 0x84, CHR 0xD9, CHR 0x88, CHR 0xD8, CHR 0xB6,
          CHR 0xD8, CHR 0xB9] @
         '' '' @
         [CHR 0xD8, CHR 0xA7, CHR 0xD9, CHR 0x84, CHR 0xD8, CHR 0xB5, CHR 0xD8, CHR 0xA7,
          CHR 0xD9, CHR 0x85, CHR 0xD8, CHR 0xAA] @
         ''<blockquote>'' @ [CHR 0xD8, CHR 0xB9, CHR 0xD9, CHR 0x86, CHR 0xD8, CHR 0xAF] @
         '' '' @
         [CHR 0xD8, CHR 0xAA, CHR 0xD9, CHR 0x81, CHR 0xD8, CHR 0xB9, CHR 0xD9, CHR 0x8A,
          CHR 0xD9, CHR 0x84] @
         '' '' @
         [CHR 0xD8, CHR 0xA7, CHR 0xD9, CHR 0x84, CHR 0xD9, CHR 0x88, CHR 0xD8, CHR 0xB6,
          CHR 0xD8, CHR 0xB9] @
         '' '' @
         [CHR 0xD8, CHR 0xA7, CHR 0xD9, CHR 0x84, CHR 0xD8, CHR 0xB5, CHR 0xD8, CHR 0xA7,
          CHR 0xD9, CHR 0x85, CHR 0xD8, CHR 0xAA, CHR 0xD8, CHR 0x8C] @
         '' '' @ [CHR 0xD9, CHR 0x84, CHR 0xD8, CHR 0xA7] @ '' '' @
         [CHR 0xD9, CHR 0x8A, CHR 0xD8, CHR 0xAA, CHR 0xD9, CHR 0x85] @ '' '' @
         [CHR 0xD8, CHR 0xA5, CHR 0xD8, CHR 0xB1, CHR 0xD8, CHR 0xB3, CHR 0xD8, CHR 0xA7,
          CHR 0xD9, CHR 0x84] @
         '' '' @
         [CHR 0xD8, CHR 0xA7, CHR 0xD9, CHR 0x84, CHR 0xD8, CHR 0xB1, CHR 0xD8, CHR 0xB3,
          CHR 0xD8, CHR 0xA7, CHR 0xD8, CHR 0xA6, CHR 0xD9, CHR 0x84] @
         '' '' @
         [CHR 0xD9, CHR 0x84, CHR 0xD9, CHR 0x84, CHR 0xD9, CHR 0x85, CHR 0xD8, CHR 0xB3,
          CHR 0xD8, CHR 0xAA, CHR 0xD8, CHR 0xAE, CHR 0xD8, CHR 0xAF, CHR 0xD9, CHR 0x85] @
         ''.</blockquote>\<newline>\<newline>'' @ [CHR 0xE2, CHR 0x80, CHR 0xA2] @
         '' /information\<newline>'' @
         [CHR 0xD9, CHR 0x85, CHR 0xD8, CHR 0xB9, CHR 0xD9, CHR 0x84, CHR 0xD9, CHR 0x88,
          CHR 0xD9, CHR 0x85, CHR 0xD8, CHR 0xA7, CHR 0xD8, CHR 0xAA] @
         '' '' @
         [CHR 0xD8, CHR 0xA7, CHR 0xD9, CHR 0x84, CHR 0xD9, CHR 0x85, CHR 0xD8, CHR 0xB3,
          CHR 0xD8, CHR 0xAA, CHR 0xD8, CHR 0xAE, CHR 0xD8, CHR 0xAF, CHR 0xD9, CHR 0x85] @
         ''<blockquote>'' @
         [CHR 0xD8, CHR 0xA7, CHR 0xD8, CHR 0xB3, CHR 0xD8, CHR 0xAA, CHR 0xD9, CHR 0x84,
          CHR 0xD9, CHR 0x85] @
         '' '' @
         [CHR 0xD8, CHR 0xB1, CHR 0xD8, CHR 0xB3, CHR 0xD8, CHR 0xA7, CHR 0xD9, CHR 0x84,
          CHR 0xD8, CHR 0xA9] @
         '' '' @
         [CHR 0xD8, CHR 0xAA, CHR 0xD8, CHR 0xAD, CHR 0xD8, CHR 0xAA, CHR 0xD9, CHR 0x88,
          CHR 0xD9, CHR 0x8A] @
         '' '' @ [CHR 0xD8, CHR 0xB9, CHR 0xD9, CHR 0x84, CHR 0xD9, CHR 0x89] @ '' '' @
         [CHR 0xD8, CHR 0xA7, CHR 0xD9, CHR 0x84, CHR 0xD9, CHR 0x85, CHR 0xD8, CHR 0xB9,
          CHR 0xD9, CHR 0x84, CHR 0xD9, CHR 0x88, CHR 0xD9, CHR 0x85, CHR 0xD8, CHR 0xA7,
          CHR 0xD8, CHR 0xAA] @
         '' '' @
         [CHR 0xD8, CHR 0xA7, CHR 0xD9, CHR 0x84, CHR 0xD8, CHR 0xA3, CHR 0xD8, CHR 0xB3,
          CHR 0xD8, CHR 0xA7, CHR 0xD8, CHR 0xB3, CHR 0xD9, CHR 0x8A, CHR 0xD8, CHR 0xA9] @
         '' '' @ [CHR 0xD8, CHR 0xB9, CHR 0xD9, CHR 0x86] @ '' '' @
         [CHR 0xD8, CHR 0xA7, CHR 0xD9, CHR 0x84, CHR 0xD9, CHR 0x85, CHR 0xD8, CHR 0xB3,
          CHR 0xD8, CHR 0xAA, CHR 0xD8, CHR 0xAE, CHR 0xD8, CHR 0xAF, CHR 0xD9, CHR 0x85] @
         ''.</blockquote>''),
       (''user_restarted_bot'',
         [CHR 0xD8, CHR 0xA7, CHR 0xD9, CHR 0x84, CHR 0xD9, CHR 0x85, CHR 0xD8, CHR 0xB3,
          CHR 0xD8, CHR 0xAA, CHR 0xD8, CHR 0xAE, CHR 0xD8, CHR 0xAF, CHR 0xD9, CHR 0x85] @
         '' '' @
         hbold ''{name}'' @
         '' '' @
         [CHR 0xD8, CHR 0xA3, CHR 0xD8, CHR 0xB9, CHR 0xD8, CHR 0xA7, CHR 0xD8, CHR 0xAF] @
         '' '' @
         [CHR 0xD8, CHR 0xAA, CHR 0xD8, CHR 0xB4, CHR 0xD8, CHR 0xBA, CHR 0xD9, CHR 0x8A,
          CHR 0xD9, CHR 0x84] @
         '' '' @
         [CHR 0xD8, CHR 0xA7, CHR 0xD9, CHR 0x84, CHR 0xD8, CHR 0xA8, CHR 0xD9, CHR 0x88,
          CHR 0xD8, CHR 0xAA] @
         ''!''),
       (''user_stopped_bot'',
         [CHR 0xD8, CHR 0xA7, CHR 0xD9, CHR 0x84, CHR 0xD9, CHR 0x85, CHR 0xD8, CHR 0xB3,
          CHR 0xD8, CHR 0xAA, CHR 0xD8, CHR 0xAE, CHR 0xD8, CHR 0xAF, CHR 0xD9, CHR 0x85] @
         '' '' @
         hbold ''{name}'' @
         '' '' @
         [CHR 0xD8, CHR 0xA3, CHR 0xD9, CHR 0x88, CHR 0xD9, CHR 0x82, CHR 0xD9, CHR 0x81] @
         '' '' @
         [CHR 0xD8, CHR 0xA7, CHR 0xD9, CHR 0x84, CHR 0xD8, CHR 0xA8, CHR 0xD9, CHR 0x88,
          CHR 0xD8, CHR 0xAA] @
         ''!''),
       (''user_blocked'',
         ''<b>'' @ [CHR 0xD8, CHR 0xAA, CHR 0xD9, CHR 0x85] @ '' '' @
         [CHR 0xD8, CHR 0xAD, CHR 0xD8, CHR 0xB8, CHR 0xD8, CHR 0xB1] @ '' '' @
         [CHR 0xD8, CHR 0xA7, CHR 0xD9, CHR 0x84, CHR 0xD9, CHR 0x85, CHR 0xD8, CHR 0xB3,
          CHR 0xD8, CHR 0xAA, CHR 0xD8, CHR 0xAE, CHR 0xD8, CHR 0xAF, CHR 0xD9, CHR 0x85] @
         ''!</b> '' @ [CHR 0xD9, CHR 0x84, CHR 0xD9, CHR 0x86] @ '' '' @
         [CHR 0xD9, CHR 0x8A, CHR 0xD8, CHR 0xAA, CHR 0xD9, CHR 0x85] @ '' '' @
         [CHR 0xD9, CHR 0x82, CHR 0xD8, CHR 0xA8, CHR 0xD9, CHR 0x88, CHR 0xD9, CHR 0x84] @
         '' '' @
         [CHR 0xD8, CHR 0xA7, CHR 0xD9, CHR 0x84, CHR 0xD8, CHR 0xB1, CHR 0xD8, CHR 0xB3,
          CHR 0xD8, CHR 0xA7, CHR 0xD8, CHR 0xA6, CHR 0xD9, CHR 0x84] @
         '' '' @ [CHR 0xD9, CHR 0x85, CHR 0xD9, CHR 0x86] @ '' '' @
         [CHR 0xD9, CHR 0x87, CHR 0xD8, CHR 0xB0, CHR 0xD8, CHR 0xA7] @ '' '' @
         [CHR 0xD8, CHR 0xA7, CHR 0xD9, CHR 0x84, CHR 0xD9, CHR 0x85, CHR 0xD8, CHR 0xB3,
          CHR 0xD8, CHR 0xAA, CHR 0xD8, CHR 0xAE, CHR 0xD8, CHR 0xAF, CHR 0xD9, CHR 0x85] @
         ''.''),
       (''user_unblocked'',
         ''<b>'' @ [CHR 0xD8, CHR 0xAA, CHR 0xD9, CHR 0x85] @ '' '' @
         [CHR 0xD8, CHR 0xA5, CHR 0xD9, CHR 0x84, CHR 0xD8, CHR 0xBA, CHR 0xD8, CHR 0xA7,
          CHR 0xD8, CHR 0xA1] @
         '' '' @ [CHR 0xD8, CHR 0xAD, CHR 0xD8, CHR 0xB8, CHR 0xD8, CHR 0xB1] @ '' '' @
         [CHR 0xD8, CHR 0xA7, CHR 0xD9, CHR 0x84, CHR 0xD9, CHR 0x85, CHR 0xD8, CHR 0xB3,
          CHR 0xD8, CHR 0xAA, CHR 0xD8, CHR 0xAE, CHR 0xD8, CHR 0xAF, CHR 0xD9, CHR 0x85] @
         ''!</b> '' @
         [CHR 0xD8, CHR 0xB3, CHR 0xD9, CHR 0x8A, CHR 0xD8, CHR 0xAA, CHR 0xD9, CHR 0x85] @
         '' '' @
         [CHR 0xD9, CHR 0x82, CHR 0xD8, CHR 0xA8, CHR 0xD9, CHR 0x88, CHR 0xD9, CHR 0x84] @
         '' '' @
         [CHR 0xD8, CHR 0xA7, CHR 0xD9, CHR 0x84, CHR 0xD8, CHR 0xB1, CHR 0xD8, CHR 0xB3,
          CHR 0xD8, CHR 0xA7, CHR 0xD8, CHR 0xA6, CHR 0xD9, CHR 0x84] @
         '' '' @ [CHR 0xD9, CHR 0x85, CHR 0xD9, CHR 0x86] @ '' '' @
         [CHR 0xD9, CHR 0x87, CHR 0xD8, CHR 0xB0, CHR 0xD8, CHR 0xA7] @ '' '' @
         [CHR 0xD8, CHR 0xA7, CHR 0xD9, CHR 0x84, CHR 0xD9, CHR 0x85, CHR 0xD8, CHR 0xB3,
          CHR 0xD8, CHR 0xAA, CHR 0xD8, CHR 0xAE, CHR 0xD8, CHR 0xAF, CHR 0xD9, CHR 0x85] @
         '' '' @
         [CHR 0xD9, CHR 0x85, CHR 0xD8, CHR 0xAC, CHR 0xD8, CHR 0xAF, CHR 0xD8, CHR 0xAF,
          CHR 0xD8, CHR 0xA7, CHR 0xD9, CHR 0x8B] @
         ''.''),
       (''blocked_by_user'',
         ''<b>'' @ [CHR 0xD9, CHR 0x84, CHR 0xD9, CHR 0x85] @ '' '' @
         [CHR 0xD9, CHR 0x8A, CHR 0xD8, CHR 0xAA, CHR 0xD9, CHR 0x85] @ '' '' @
         [CHR 0xD8, CHR 0xA5, CHR 0xD8, CHR 0xB1, CHR 0xD8, CHR 0xB3, CHR 0xD8, CHR 0xA7,
          CHR 0xD9, CHR 0x84] @
         '' '' @
         [CHR 0xD8, CHR 0xA7, CHR 0xD9, CHR 0x84, CHR 0xD8, CHR 0xB1, CHR 0xD8, CHR 0xB3,
          CHR 0xD8, CHR 0xA7, CHR 0xD9, CHR 0x84, CHR 0xD8, CHR 0xA9] @
         ''!</b> '' @ [CHR 0xD8, CHR 0xAA, CHR 0xD9, CHR 0x85] @ '' '' @
         [CHR 0xD8, CHR 0xAD, CHR 0xD8, CHR 0xB8, CHR 0xD8, CHR 0xB1] @ '' '' @
         [CHR 0xD8, CHR 0xA7, CHR 0xD9, CHR 0x84, CHR 0xD8, CHR 0xA8, CHR 0xD9, CHR 0x88,
          CHR 0xD8, CHR 0xAA] @
         '' '' @ [CHR 0xD9, CHR 0x85, CHR 0xD9, CHR 0x86] @ '' '' @
         [CHR 0xD9, CHR 0x82, CHR 0xD8, CHR 0xA8, CHR 0xD9, CHR 0x84] @ '' '' @
         [CHR 0xD8, CHR 0xA7, CHR 0xD9, CHR 0x84, CHR 0xD9, CHR 0x85, CHR 0xD8, CHR 0xB3,
          CHR 0xD8, CHR 0xAA, CHR 0xD8, CHR 0xAE, CHR 0xD8, CHR 0xAF, CHR 0xD9, CHR 0x85] @
         ''.''),
       (''user_information'',
         ''<b>'' @
         [CHR 0xD8, CHR 0xA7, CHR 0xD9, CHR 0x84, CHR 0xD9, CHR 0x85, CHR 0xD8, CHR 0xB9,
          CHR 0xD8, CHR 0xB1, CHR 0xD9, CHR 0x81] @
         '':</b>\<newline>'' @ ''- <code>{id}</code>\<newline>'' @ ''<b>'' @
         [CHR 0xD8, CHR 0xA7, CHR 0xD9, CHR 0x84, CHR 0xD8, CHR 0xA7, CHR 0xD8, CHR 0xB3,
          CHR 0xD9, CHR 0x85] @
         '':</b>\<newline>'' @ ''- {full_name}\<newline>'' @ ''<b>'' @
         [CHR 0xD8, CHR 0xA7, CHR 0xD9, CHR 0x84, CHR 0xD8, CHR 0xAD, CHR 0xD8, CHR 0xA7,
          CHR 0xD9, CHR 0x84, CHR 0xD8, CHR 0xA9] @
         '':</b>\<newline>'' @ ''- {state}\<newline>'' @ ''<b>'' @
         [CHR 0xD8, CHR 0xA7, CHR 0xD8, CHR 0xB3, CHR 0xD9, CHR 0x85] @ '' '' @
         [CHR 0xD8, CHR 0xA7, CHR 0xD9, CHR 0x84, CHR 0xD9, CHR 0x85, CHR 0xD8, CHR 0xB3,
          CHR 0xD8, CHR 0xAA, CHR 0xD8, CHR 0xAE, CHR 0xD8, CHR 0xAF, CHR 0xD9, CHR 0x85] @
         '':</b>\<newline>'' @ ''- {username}\<newline>'' @ ''<b>'' @
         [CHR 0xD9, CHR 0x85, CHR 0xD8, CHR 0xAD, CHR 0xD8, CHR 0xB8, CHR 0xD9, CHR 0x88,
          CHR 0xD8, CHR 0xB1] @
         '':</b>\<newline>'' @ ''- {is_banned}\<newline>'' @ ''<b>'' @
         [CHR 0xD8, CHR 0xAA, CHR 0xD8, CHR 0xA7, CHR 0xD8, CHR 0xB1, CHR 0xD9, CHR 0x8A,
          CHR 0xD8, CHR 0xAE] @
         '' '' @
         [CHR 0xD8, CHR 0xA7, CHR 0xD9, CHR 0x84, CHR 0xD8, CHR 0xAA, CHR 0xD8, CHR 0xB3,
          CHR 0xD8, CHR 0xAC, CHR 0xD9, CHR 0x8A, CHR 0xD9, CHR 0x84] @
         '':</b>\<newline>'' @ ''- {created_at}''),
       (''message_not_sent'',
         ''<b>'' @ [CHR 0xD9, CHR 0x84, CHR 0xD9, CHR 0x85] @ '' '' @
         [CHR 0xD9, CHR 0x8A, CHR 0xD8, CHR 0xAA, CHR 0xD9, CHR 0x85] @ '' '' @
         [CHR 0xD8, CHR 0xA5, CHR 0xD8, CHR 0xB1, CHR 0xD8, CHR 0xB3, CHR 0xD8, CHR 0xA7,
          CHR 0xD9, CHR 0x84] @
         '' '' @
         [CHR 0xD8, CHR 0xA7, CHR 0xD9, CHR 0x84, CHR 0xD8, CHR 0xB1, CHR 0xD8, CHR 0xB3,
          CHR 0xD8, CHR 0xA7, CHR 0xD9, CHR 0x84, CHR 0xD8, CHR 0xA9] @
         ''!</b> '' @ [CHR 0xD8, CHR 0xAD, CHR 0xD8, CHR 0xAF, CHR 0xD8, CHR 0xAB] @ '' '' @
         [CHR 0xD8, CHR 0xAE, CHR 0xD8, CHR 0xB7, CHR 0xD8, CHR 0xA3] @ '' '' @
         [CHR 0xD8, CHR 0xBA, CHR 0xD9, CHR 0x8A, CHR 0xD8, CHR 0xB1] @ '' '' @
         [CHR 0xD9, CHR 0x85, CHR 0xD8, CHR 0xAA, CHR 0xD9, CHR 0x88, CHR 0xD9, CHR 0x82,
          CHR 0xD8, CHR 0xB9] @
         ''.''),
       (''message_sent_to_user'',
         ''<b>'' @ [CHR 0xD8, CHR 0xAA, CHR 0xD9, CHR 0x85] @ '' '' @
         [CHR 0xD8, CHR 0xA5, CHR 0xD8, CHR 0xB1, CHR 0xD8, CHR 0xB3, CHR 0xD8, CHR 0xA7,
          CHR 0xD9, CHR 0x84] @
         '' '' @
         [CHR 0xD8, CHR 0xA7, CHR 0xD9, CHR 0x84, CHR 0xD8, CHR 0xB1, CHR 0xD8, CHR 0xB3,
          CHR 0xD8, CHR 0xA7, CHR 0xD9, CHR 0x84, CHR 0xD8, CHR 0xA9] @
         '' '' @
         [CHR 0xD9, CHR 0x84, CHR 0xD9, CHR 0x84, CHR 0xD9, CHR 0x85, CHR 0xD8, CHR 0xB3,
          CHR 0xD8, CHR 0xAA, CHR 0xD8, CHR 0xAE, CHR 0xD8, CHR 0xAF, CHR 0xD9, CHR 0x85] @
         ''!</b>''),
       (''silent_mode_enabled'',
         ''<b>'' @ [CHR 0xD8, CHR 0xAA, CHR 0xD9, CHR 0x85] @ '' '' @
         [CHR 0xD8, CHR 0xAA, CHR 0xD9, CHR 0x81, CHR 0xD8, CHR 0xB9, CHR 0xD9, CHR 0x8A,
          CHR 0xD9, CHR 0x84] @
         '' '' @
         [CHR 0xD8, CHR 0xA7, CHR 0xD9, CHR 0x84, CHR 0xD9, CHR 0x88, CHR 0xD8, CHR 0xB6,
          CHR 0xD8, CHR 0xB9] @
         '' '' @
         [CHR 0xD8, CHR 0xA7, CHR 0xD9, CHR 0x84, CHR 0xD8, CHR 0xB5, CHR 0xD8, CHR 0xA7,
          CHR 0xD9, CHR 0x85, CHR 0xD8, CHR 0xAA] @
         ''!</b> '' @ [CHR 0xD9, CHR 0x84, CHR 0xD9, CHR 0x86] @ '' '' @
         [CHR 0xD9, CHR 0x8A, CHR 0xD8, CHR 0xAA, CHR 0xD9, CHR 0x85] @ '' '' @
         [CHR 0xD8, CHR 0xAA, CHR 0xD9, CHR 0x88, CHR 0xD8, CHR 0xB5, CHR 0xD9, CHR 0x8A,
          CHR 0xD9, CHR 0x84] @
         '' '' @
         [CHR 0xD8, CHR 0xA7, CHR 0xD9, CHR 0x84, CHR 0xD8, CHR 0xB1, CHR 0xD8, CHR 0xB3,
          CHR 0xD8, CHR 0xA7, CHR 0xD8, CHR 0xA6, CHR 0xD9, CHR 0x84] @
         '' '' @
         [CHR 0xD9, CHR 0x84, CHR 0xD9, CHR 0x84, CHR 0xD9, CHR 0x85, CHR 0xD8, CHR 0xB3,
          CHR 0xD8, CHR 0xAA, CHR 0xD8, CHR 0xAE, CHR 0xD8, CHR 0xAF, CHR 0xD9, CHR 0x85] @
         ''.''),
       (''silent_mode_disabled'',
         ''<b>'' @ [CHR 0xD8, CHR 0xAA, CHR 0xD9, CHR 0x85] @ '' '' @
         [CHR 0xD8, CHR 0xA5, CHR 0xD9, CHR 0x84, CHR 0xD8, CHR 0xBA, CHR 0xD8, CHR 0xA7,
          CHR 0xD8, CHR 0xA1] @
         '' '' @
         [CHR 0xD8, CHR 0xA7, CHR 0xD9, CHR 0x84, CHR 0xD9, CHR 0x88, CHR 0xD8, CHR 0xB6,
          CHR 0xD8, CHR 0xB9] @
         '' '' @
         [CHR 0xD8, CHR 0xA7, CHR 0xD9, CHR 0x84, CHR 0xD8, CHR 0xB5, CHR 0xD8, CHR 0xA7,
          CHR 0xD9, CHR 0x85, CHR 0xD8, CHR 0xAA] @
         ''!</b> '' @
         [CHR 0xD8, CHR 0xB3, CHR 0xD9, CHR 0x8A, CHR 0xD8, CHR 0xB3, CHR 0xD8, CHR 0xAA,
          CHR 0xD9, CHR 0x84, CHR 0xD9, CHR 0x85] @
         '' '' @
         [CHR 0xD8, CHR 0xA7, CHR 0xD9, CHR 0x84, CHR 0xD9, CHR 0x85, CHR 0xD8, CHR 0xB3,
          CHR 0xD8, CHR 0xAA, CHR 0xD8, CHR 0xAE, CHR 0xD8, CHR 0xAF, CHR 0xD9, CHR 0x85] @
         '' '' @
         [CHR 0xD8, CHR 0xAC, CHR 0xD9, CHR 0x85, CHR 0xD9, CHR 0x8A, CHR 0xD8, CHR 0xB9] @
         '' '' @
         [CHR 0xD8, CHR 0xA7, CHR 0xD9, CHR 0x84, CHR 0xD8, CHR 0xB1, CHR 0xD8, CHR 0xB3,
          CHR 0xD8, CHR 0xA7, CHR 0xD8, CHR 0xA6, CHR 0xD9, CHR 0x84] @
         ''.'')])]"

section \<open>app/bot/commands.py\<close>

subsection \<open>The platform client and the interpreter's state\<close>

record BotCommand =
  command :: string
  description :: string

datatype BotCommandScope =
    BotCommandScopeChat int
  | BotCommandScopeAllGroupChats
  | BotCommandScopeAllPrivateChats

text \<open>
  One remote call \<open>bot.set_my_commands(commands=..., scope=..., language_code=...)\<close>;
  a call that passes no \<open>language_code\<close> has \<open>None\<close> there.
\<close>

datatype request =
  SetMyCommands (commands_of: "BotCommand list") (scope_of: BotCommandScope)
    (language_code_of: "string option")

text \<open>
  The platform client is outside the repository. It is a parameter: from the exchanges
  so far and the request it answers \<open>None\<close> (the awaited call returns) or \<open>Some e\<close>
  (the awaited call raises \<open>e\<close>).
\<close>

type_synonym Bot = "(request \<times> exn option) list \<Rightarrow> request \<Rightarrow> exn option"

text \<open>
  Python lists are objects: \<open>append\<close> changes a list in place, and every name or dict
  entry that refers to the list sees the change. \<open>heap\<close> holds the list objects by
  reference, \<open>next_ref\<close> is the next unused reference, and \<open>sent\<close> is the log of remote
  calls, oldest first, each with the platform's answer.
\<close>

type_synonym ref = nat

record world =
  heap :: "ref \<Rightarrow> BotCommand list"
  next_ref :: ref
  sent :: "(request \<times> exn option) list"

type_synonym 'a prog = "world \<Rightarrow> (exn + 'a) \<times> world"

definition ret :: "'a \<Rightarrow> 'a prog" where
  "ret x w = (Inr x, w)"

definition raise :: "exn \<Rightarrow> 'a prog" where
  "raise e w = (Inl e, w)"

definition seq :: "'a prog \<Rightarrow> ('a \<Rightarrow> 'b prog) \<Rightarrow> 'b prog" where
  "seq m f w = (case m w of (Inl e, w') \<Rightarrow> (Inl e, w') | (Inr x, w') \<Rightarrow> f x w')"

text \<open>\<open>try: body except TelegramBadRequest: handler\<close>; every other exception passes.\<close>

definition try_except_TelegramBadRequest :: "'a prog \<Rightarrow> 'a prog \<Rightarrow> 'a prog" where
  "try_except_TelegramBadRequest body handler w =
     (case body w of
        (Inl TelegramBadRequest, w') \<Rightarrow> handler w'
      | (r, w') \<Rightarrow> (r, w'))"

text \<open>A list display \<open>[x, ...]\<close> makes a new list object.\<close>

definition new_list :: "BotCommand list \<Rightarrow> ref prog" where
  "new_list xs w =
     (Inr (next_ref w), w\<lparr>heap := (heap w)(next_ref w := xs), next_ref := Suc (next_ref w)\<rparr>)"

text \<open>\<open>l.append(x)\<close> changes the object \<open>l\<close> refers to.\<close>

definition list_append :: "ref \<Rightarrow> BotCommand \<Rightarrow> unit prog" where
  "list_append l x w = (Inr (), w\<lparr>heap := (heap w)(l := heap w l @ [x])\<rparr>)"

text \<open>\<open>l.copy()\<close> and \<open>a + b\<close> make new objects and leave their operands as they are.\<close>

definition list_copy :: "ref \<Rightarrow> ref prog" where
  "list_copy l w = new_list (heap w l) w"

definition list_add :: "ref \<Rightarrow> ref \<Rightarrow> ref prog" where
  "list_add a b w = new_list (heap w a @ heap w b) w"

text \<open>\<open>d[k]\<close> inside a procedure.\<close>

definition subscript :: "(string \<times> 'v) list \<Rightarrow> string \<Rightarrow> 'v prog" where
  "subscript d k w = (case getitem d k of Inl e \<Rightarrow> (Inl e, w) | Inr v \<Rightarrow> (Inr v, w))"

text \<open>
  \<open>await bot.set_my_commands(commands=l, scope=s, language_code=c)\<close>: the request carries
  the contents of the list at the time of the call; it is logged with the answer.
\<close>

definition set_my_commands :: "Bot \<Rightarrow> ref \<Rightarrow> BotCommandScope \<Rightarrow> string option \<Rightarrow> unit prog" where
  "set_my_commands client l s c w =
     (let rq = SetMyCommands (heap w l) s c;
          answer = client (sent w) rq;
          w' = w\<lparr>sent := sent w @ [(rq, answer)]\<rparr>
      in case answer of None \<Rightarrow> (Inr (), w') | Some e \<Rightarrow> (Inl e, w'))"

text \<open>\<open>str(n)\<close> for an \<open>int\<close>, as an f-string formats it: decimal, with a minus sign.\<close>

fun str_nat :: "nat \<Rightarrow> string" where
  "str_nat n =
     (if n < 10 then [''0123456789'' ! n]
      else str_nat (n div 10) @ [''0123456789'' ! (n mod 10)])"

definition str_int :: "int \<Rightarrow> string" where
  "str_int i = (if i < 0 then ''-'' @ str_nat (nat (- i)) else str_nat (nat i))"

subsection \<open>setup\<close>

text \<open>The \<open>BotCommand(...)\<close> displays of \<open>setup\<close>, named by command and language.\<close>

definition start_en :: BotCommand where
  "start_en =
     \<lparr>command = ''start'',
      description =
        ''Restart bot''\<rparr>"

definition start_ar :: BotCommand where
  "start_ar =
     \<lparr>command = ''start'',
      description =
        [CHR 0xD8, CHR 0xA5, CHR 0xD8, CHR 0xB9, CHR 0xD8, CHR 0xA7, CHR 0xD8, CHR 0xAF,
         CHR 0xD8, CHR 0xA9] @
        '' '' @
        [CHR 0xD8, CHR 0xAA, CHR 0xD8, CHR 0xB4, CHR 0xD8, CHR 0xBA, CHR 0xD9, CHR 0x8A,
         CHR 0xD9, CHR 0x84] @
        '' '' @
        [CHR 0xD8, CHR 0xA7, CHR 0xD9, CHR 0x84, CHR 0xD8, CHR 0xA8, CHR 0xD9, CHR 0x88,
         CHR 0xD8, CHR 0xAA]\<rparr>"

definition language_en :: BotCommand where
  "language_en =
     \<lparr>command = ''language'',
      description =
        ''Change language''\<rparr>"

definition language_ar :: BotCommand where
  "language_ar =
     \<lparr>command = ''language'',
      description =
        [CHR 0xD8, CHR 0xAA, CHR 0xD8, CHR 0xBA, CHR 0xD9, CHR 0x8A, CHR 0xD9, CHR 0x8A,
         CHR 0xD8, CHR 0xB1] @
        '' '' @
        [CHR 0xD8, CHR 0xA7, CHR 0xD9, CHR 0x84, CHR 0xD9, CHR 0x84, CHR 0xD8, CHR 0xBA,
         CHR 0xD8, CHR 0xA9]\<rparr>"

definition ban_en :: BotCommand where
  "ban_en =
     \<lparr>command = ''ban'',
      description =
        ''Block/Unblock a user''\<rparr>"

definition silent_en :: BotCommand where
  "silent_en =
     \<lparr>command = ''silent'',
      description =
        ''Activate/Deactivate silent Mode''\<rparr>"

definition information_en :: BotCommand where
  "information_en =
     \<lparr>command = ''information'',
      description =
        ''User information''\<rparr>"

definition ban_ar :: BotCommand where
  "ban_ar =
     \<lparr>command = ''ban'',
      description =
        [CHR 0xD8, CHR 0xAD, CHR 0xD8, CHR 0xB8, CHR 0xD8, CHR 0xB1] @ ''/'' @
        [CHR 0xD8, CHR 0xA5, CHR 0xD9, CHR 0x84, CHR 0xD8, CHR 0xBA, CHR 0xD8, CHR 0xA7,
         CHR 0xD8, CHR 0xA1] @
        '' '' @ [CHR 0xD8, CHR 0xAD, CHR 0xD8, CHR 0xB8, CHR 0xD8, CHR 0xB1] @ '' '' @
        [CHR 0xD9, CHR 0x85, CHR 0xD8, CHR 0xB3, CHR 0xD8, CHR 0xAA, CHR 0xD8, CHR 0xAE,
         CHR 0xD8, CHR 0xAF, CHR 0xD9, CHR 0x85]\<rparr>"

definition silent_ar :: BotCommand where
  "silent_ar =
     \<lparr>command = ''silent'',
      description =
        [CHR 0xD8, CHR 0xAA, CHR 0xD9, CHR 0x81, CHR 0xD8, CHR 0xB9, CHR 0xD9, CHR 0x8A,
         CHR 0xD9, CHR 0x84] @
        ''/'' @
        [CHR 0xD8, CHR 0xA5, CHR 0xD9, CHR 0x84, CHR 0xD8, CHR 0xBA, CHR 0xD8, CHR 0xA7,
         CHR 0xD8, CHR 0xA1] @
        '' '' @
        [CHR 0xD8, CHR 0xA7, CHR 0xD9, CHR 0x84, CHR 0xD9, CHR 0x88, CHR 0xD8, CHR 0xB6,
         CHR 0xD8, CHR 0xB9] @
        '' '' @
        [CHR 0xD8, CHR 0xA7, CHR 0xD9, CHR 0x84, CHR 0xD8, CHR 0xB5, CHR 0xD8, CHR 0xA7,
         CHR 0xD9, CHR 0x85, CHR 0xD8, CHR 0xAA]\<rparr>"

definition information_ar :: BotCommand where
  "information_ar =
     \<lparr>command = ''information'',
      description =
        [CHR 0xD9, CHR 0x85, CHR 0xD8, CHR 0xB9, CHR 0xD9, CHR 0x84, CHR 0xD9, CHR 0x88,
         CHR 0xD9, CHR 0x85, CHR 0xD8, CHR 0xA7, CHR 0xD8, CHR 0xAA] @
        '' '' @
        [CHR 0xD8, CHR 0xA7, CHR 0xD9, CHR 0x84, CHR 0xD9, CHR 0x85, CHR 0xD8, CHR 0xB3,
         CHR 0xD8, CHR 0xAA, CHR 0xD8, CHR 0xAE, CHR 0xD8, CHR 0xAF, CHR 0xD9, CHR 0x85]\<rparr>"

definition newsletter_en :: BotCommand where
  "newsletter_en =
     \<lparr>command = ''newsletter'',
      description =
        ''Newsletter menu''\<rparr>"

definition newsletter_ar :: BotCommand where
  "newsletter_ar =
     \<lparr>command = ''newsletter'',
      description =
        [CHR 0xD9, CHR 0x82, CHR 0xD8, CHR 0xA7, CHR 0xD8, CHR 0xA6, CHR 0xD9, CHR 0x85,
         CHR 0xD8, CHR 0xA9] @
        '' '' @
        [CHR 0xD8, CHR 0xA7, CHR 0xD9, CHR 0x84, CHR 0xD9, CHR 0x86, CHR 0xD8, CHR 0xB4,
         CHR 0xD8, CHR 0xB1, CHR 0xD8, CHR 0xA9]\<rparr>"

text \<open>
  Lines 22 to 38: the dict \<open>commands\<close>, and the two \<open>append\<close> calls when more than one
  language is supported. The module global \<open>SUPPORTED_LANGUAGES\<close> is the argument.
\<close>

definition build_commands :: "(string \<times> string) list \<Rightarrow> (string \<times> ref) list prog" where
  "build_commands langs =
     seq (new_list [start_en]) (\<lambda>en.
     seq (new_list [start_ar]) (\<lambda>ar.
     let commands = [(''en'', en), (''ar'', ar)] in
     seq (if length langs > 1 then
            seq (subscript commands ''en'') (\<lambda>l.
            seq (list_append l language_en) (\<lambda>_.
            seq (subscript commands ''ar'') (\<lambda>l.
            list_append l language_ar)))
          else ret ()) (\<lambda>_.
     ret commands)))"

text \<open>Lines 40 to 51: the dict \<open>group_commands\<close>.\<close>

definition build_group_commands :: "(string \<times> ref) list prog" where
  "build_group_commands =
     seq (new_list [ban_en, silent_en, information_en]) (\<lambda>en.
     seq (new_list [ban_ar, silent_ar, information_ar]) (\<lambda>ar.
     ret [(''en'', en), (''ar'', ar)]))"

text \<open>Lines 53 to 60: the dict \<open>admin_commands\<close>, from \<open>commands\<close>.\<close>

definition build_admin_commands :: "(string \<times> ref) list \<Rightarrow> (string \<times> ref) list prog" where
  "build_admin_commands commands =
     seq (subscript commands ''en'') (\<lambda>l.
     seq (list_copy l) (\<lambda>c.
     seq (new_list [newsletter_en]) (\<lambda>n.
     seq (list_add c n) (\<lambda>en.
     seq (subscript commands ''ar'') (\<lambda>l.
     seq (list_copy l) (\<lambda>c.
     seq (new_list [newsletter_ar]) (\<lambda>n.
     seq (list_add c n) (\<lambda>ar.
     ret [(''en'', en), (''ar'', ar)]))))))))"

text \<open>
  Lines 62 to 98: the six remote calls. \<open>DEV_ID\<close> is \<open>config.bot.DEV_ID\<close>; the class
  \<open>Config\<close> is not among the sources, and the identifier is an integer.
\<close>

definition register ::
  "Bot \<Rightarrow> int \<Rightarrow> (string \<times> ref) list \<Rightarrow> (string \<times> ref) list \<Rightarrow> (string \<times> ref) list \<Rightarrow>
   unit prog" where
  "register client DEV_ID commands group_commands admin_commands =
     seq (try_except_TelegramBadRequest
            (seq (subscript admin_commands ''en'') (\<lambda>l.
             seq (set_my_commands client l (BotCommandScopeChat DEV_ID) None) (\<lambda>_.
             seq (subscript admin_commands ''ar'') (\<lambda>l.
             set_my_commands client l (BotCommandScopeChat DEV_ID) (Some ''ar'')))))
            (raise (ValueError (''Chat with DEV_ID '' @ str_int DEV_ID @ '' not found.''))))
       (\<lambda>_.
     seq (subscript commands ''en'') (\<lambda>l.
     seq (set_my_commands client l BotCommandScopeAllPrivateChats None) (\<lambda>_.
     seq (subscript commands ''ar'') (\<lambda>l.
     seq (set_my_commands client l BotCommandScopeAllPrivateChats (Some ''ar'')) (\<lambda>_.
     seq (subscript group_commands ''en'') (\<lambda>l.
     seq (set_my_commands client l BotCommandScopeAllGroupChats None) (\<lambda>_.
     seq (subscript group_commands ''ar'') (\<lambda>l.
     set_my_commands client l BotCommandScopeAllGroupChats (Some ''ar'')))))))))"

text \<open>
  \<open>setup(bot, config)\<close>. (\<open>setup\<close> is a keyword of Isabelle, hence the longer name.)
\<close>

definition setup_commands :: "(string \<times> string) list \<Rightarrow> Bot \<Rightarrow> int \<Rightarrow> unit prog" where
  "setup_commands langs client DEV_ID =
     seq (build_commands langs) (\<lambda>commands.
     seq build_group_commands (\<lambda>group_commands.
     seq (build_admin_commands commands) (\<lambda>admin_commands.
     register client DEV_ID commands group_commands admin_commands)))"

subsection \<open>Platforms and a starting state for the examples\<close>

definition empty_world :: world where
  "empty_world = \<lparr>heap = (\<lambda>_. []), next_ref = 0, sent = []\<rparr>"

text \<open>A platform that accepts every request.\<close>

definition accepting_bot :: Bot where
  "accepting_bot history rq = None"

text \<open>
  A platform on which no chat identifier resolves: a request scoped to one chat is a bad
  request, every other request is accepted.
\<close>

definition unknown_chat_bot :: Bot where
  "unknown_chat_bot history rq =
     (case scope_of rq of
        BotCommandScopeChat _ \<Rightarrow> Some TelegramBadRequest
      | _ \<Rightarrow> None)"

subsection \<open>Reading the state\<close>

text \<open>
  \<open>contents w d k\<close> is the list that the dict \<open>d\<close> holds under the key \<open>k\<close>, as it is in the
  state \<open>w\<close>; \<open>calls_with rqs s cs\<close> counts the requests of \<open>rqs\<close> that have the scope \<open>s\<close> and
  carry the command list \<open>cs\<close>.
\<close>

definition contents :: "world \<Rightarrow> (string \<times> ref) list \<Rightarrow> string \<Rightarrow> BotCommand list option" where
  "contents w d k = map_option (heap w) (map_of d k)"

definition calls_with :: "request list \<Rightarrow> BotCommandScope \<Rightarrow> BotCommand list option \<Rightarrow> nat" where
  "calls_with rqs s cs = length (filter (\<lambda>rq. scope_of rq = s \<and> Some (commands_of rq) = cs) rqs)"

section \<open>Facts about the procedures\<close>


lemmas prog_defs = seq_def ret_def raise_def try_except_TelegramBadRequest_def subscript_def
  getitem_def set_my_commands_def Let_def

lemma keys_SUPPORTED_LANGUAGES: "keys SUPPORTED_LANGUAGES = [''en'', ''ar'']"
  by (simp add: keys_def SUPPORTED_LANGUAGES_def)

lemma length_SUPPORTED_LANGUAGES: "length SUPPORTED_LANGUAGES = 2"
  by (simp add: SUPPORTED_LANGUAGES_def)

lemma build_commands_run:
  "build_commands langs w =
     (Inr [(''en'', next_ref w), (''ar'', Suc (next_ref w))],
      w\<lparr>heap := (heap w)
             (next_ref w := (if length langs > 1 then [start_en, language_en] else [start_en]),
              Suc (next_ref w) := (if length langs > 1 then [start_ar, language_ar] else [start_ar])),
        next_ref := Suc (Suc (next_ref w))\<rparr>)"
  by (simp add: build_commands_def seq_def new_list_def subscript_def getitem_def list_append_def ret_def Let_def)

lemma build_group_commands_run:
  "build_group_commands w =
     (Inr [(''en'', next_ref w), (''ar'', Suc (next_ref w))],
      w\<lparr>heap := (heap w)
             (next_ref w := [ban_en, silent_en, information_en],
              Suc (next_ref w) := [ban_ar, silent_ar, information_ar]),
        next_ref := Suc (Suc (next_ref w))\<rparr>)"
  by (simp add: build_group_commands_def seq_def new_list_def ret_def)

lemma build_admin_commands_run:
  assumes "en < next_ref w" and "ar < next_ref w"
  shows "build_admin_commands [(''en'', en), (''ar'', ar)] w =
     (Inr [(''en'', next_ref w + 2), (''ar'', next_ref w + 5)],
      w\<lparr>heap := (heap w)
             (next_ref w := heap w en,
              next_ref w + 1 := [newsletter_en],
              next_ref w + 2 := heap w en @ [newsletter_en],
              next_ref w + 3 := heap w ar,
              next_ref w + 4 := [newsletter_ar],
              next_ref w + 5 := heap w ar @ [newsletter_ar]),
        next_ref := next_ref w + 6\<rparr>)"
  using assms
  by (simp add: build_admin_commands_def seq_def new_list_def subscript_def getitem_def list_copy_def list_add_def ret_def eval_nat_numeral)

lemma setup_commands_unfold:
  fixes w :: world and langs :: "(string \<times> string) list"
  defines "n \<equiv> next_ref w"
  defines "base_en \<equiv> (if length langs > 1 then [start_en, language_en] else [start_en])"
  defines "base_ar \<equiv> (if length langs > 1 then [start_ar, language_ar] else [start_ar])"
  shows "setup_commands langs client DEV_ID w =
     register client DEV_ID [(''en'', n), (''ar'', n + 1)] [(''en'', n + 2), (''ar'', n + 3)]
       [(''en'', n + 6), (''ar'', n + 9)]
       (w\<lparr>heap := (heap w)
             (n := base_en, n + 1 := base_ar,
              n + 2 := [ban_en, silent_en, information_en],
              n + 3 := [ban_ar, silent_ar, information_ar],
              n + 4 := base_en, n + 5 := [newsletter_en], n + 6 := base_en @ [newsletter_en],
              n + 7 := base_ar, n + 8 := [newsletter_ar], n + 9 := base_ar @ [newsletter_ar]),
          next_ref := n + 10\<rparr>)"
  unfolding n_def base_en_def base_ar_def
  by (simp add: setup_commands_def seq_def build_commands_run build_group_commands_run
      build_admin_commands_run eval_nat_numeral)

lemma register_requests:
  assumes "register client DEV_ID [(''en'', b1), (''ar'', b2)] [(''en'', g1), (''ar'', g2)]
             [(''en'', a1), (''ar'', a2)] w = (res, w')"
  shows "\<exists>new. sent w' = sent w @ new \<and> heap w' = heap w \<and>
         map fst new = take (length new)
           [SetMyCommands (heap w a1) (BotCommandScopeChat DEV_ID) None,
            SetMyCommands (heap w a2) (BotCommandScopeChat DEV_ID) (Some ''ar''),
            SetMyCommands (heap w b1) BotCommandScopeAllPrivateChats None,
            SetMyCommands (heap w b2) BotCommandScopeAllPrivateChats (Some ''ar''),
            SetMyCommands (heap w g1) BotCommandScopeAllGroupChats None,
            SetMyCommands (heap w g2) BotCommandScopeAllGroupChats (Some ''ar'')]"
  using assms
  by (auto simp add: register_def prog_defs split: option.splits exn.splits)

lemma register_success:
  assumes "register client DEV_ID [(''en'', b1), (''ar'', b2)] [(''en'', g1), (''ar'', g2)]
             [(''en'', a1), (''ar'', a2)] w = (Inr (), w')"
  shows "sent w' = sent w @ map (\<lambda>rq. (rq, None))
           [SetMyCommands (heap w a1) (BotCommandScopeChat DEV_ID) None,
            SetMyCommands (heap w a2) (BotCommandScopeChat DEV_ID) (Some ''ar''),
            SetMyCommands (heap w b1) BotCommandScopeAllPrivateChats None,
            SetMyCommands (heap w b2) BotCommandScopeAllPrivateChats (Some ''ar''),
            SetMyCommands (heap w g1) BotCommandScopeAllGroupChats None,
            SetMyCommands (heap w g2) BotCommandScopeAllGroupChats (Some ''ar'')]"
  using assms
  by (auto simp add: register_def prog_defs split: option.splits exn.splits)

lemma register_admin_bad_request:
  assumes "register client DEV_ID [(''en'', b1), (''ar'', b2)] [(''en'', g1), (''ar'', g2)]
             [(''en'', a1), (''ar'', a2)] w = (res, w')"
   and "sent w' = sent w @ new"
   and "(rq, Some TelegramBadRequest) \<in> set new"
   and "scope_of rq = BotCommandScopeChat DEV_ID"
  shows "res = Inl (ValueError (''Chat with DEV_ID '' @ str_int DEV_ID @ '' not found.'')) \<and>
         (new = [(SetMyCommands (heap w a1) (BotCommandScopeChat DEV_ID) None, Some TelegramBadRequest)] \<or>
          new = [(SetMyCommands (heap w a1) (BotCommandScopeChat DEV_ID) None, None),
                 (SetMyCommands (heap w a2) (BotCommandScopeChat DEV_ID) (Some ''ar''), Some TelegramBadRequest)])"
  using assms
  by (auto simp add: register_def prog_defs split: option.splits exn.splits)

lemma setup_requests:
  fixes langs :: "(string \<times> string) list"
  defines "base_en \<equiv> (if length langs > 1 then [start_en, language_en] else [start_en])"
  defines "base_ar \<equiv> (if length langs > 1 then [start_ar, language_ar] else [start_ar])"
  assumes "setup_commands langs client DEV_ID w = (res, w')"
  shows "\<exists>new. sent w' = sent w @ new \<and>
         map fst new = take (length new)
           [SetMyCommands (base_en @ [newsletter_en]) (BotCommandScopeChat DEV_ID) None,
            SetMyCommands (base_ar @ [newsletter_ar]) (BotCommandScopeChat DEV_ID) (Some ''ar''),
            SetMyCommands base_en BotCommandScopeAllPrivateChats None,
            SetMyCommands base_ar BotCommandScopeAllPrivateChats (Some ''ar''),
            SetMyCommands [ban_en, silent_en, information_en] BotCommandScopeAllGroupChats None,
            SetMyCommands [ban_ar, silent_ar, information_ar] BotCommandScopeAllGroupChats (Some ''ar'')]"
  using register_requests [OF assms(3) [unfolded setup_commands_unfold]]
  unfolding base_en_def base_ar_def
  by (auto simp add: eval_nat_numeral)

lemma setup_success:
  fixes langs :: "(string \<times> string) list"
  defines "base_en \<equiv> (if length langs > 1 then [start_en, language_en] else [start_en])"
  defines "base_ar \<equiv> (if length langs > 1 then [start_ar, language_ar] else [start_ar])"
  assumes "setup_commands langs client DEV_ID w = (Inr (), w')"
  shows "sent w' = sent w @ map (\<lambda>rq. (rq, None))
           [SetMyCommands (base_en @ [newsletter_en]) (BotCommandScopeChat DEV_ID) None,
            SetMyCommands (base_ar @ [newsletter_ar]) (BotCommandScopeChat DEV_ID) (Some ''ar''),
            SetMyCommands base_en BotCommandScopeAllPrivateChats None,
            SetMyCommands base_ar BotCommandScopeAllPrivateChats (Some ''ar''),
            SetMyCommands [ban_en, silent_en, information_en] BotCommandScopeAllGroupChats None,
            SetMyCommands [ban_ar, silent_ar, information_ar] BotCommandScopeAllGroupChats (Some ''ar'')]"
  using register_success [OF assms(3) [unfolded setup_commands_unfold]]
  unfolding base_en_def base_ar_def
  by (auto simp add: eval_nat_numeral)

lemma setup_admin_bad_request:
  fixes langs :: "(string \<times> string) list"
  defines "base_en \<equiv> (if length langs > 1 then [start_en, language_en] else [start_en])"
  defines "base_ar \<equiv> (if length langs > 1 then [start_ar, language_ar] else [start_ar])"
  assumes "setup_commands langs client DEV_ID w = (res, w')"
   and "sent w' = sent w @ new"
   and "(rq, Some TelegramBadRequest) \<in> set new"
   and "scope_of rq = BotCommandScopeChat DEV_ID"
  shows "res = Inl (ValueError (''Chat with DEV_ID '' @ str_int DEV_ID @ '' not found.'')) \<and>
         (new = [(SetMyCommands (base_en @ [newsletter_en]) (BotCommandScopeChat DEV_ID) None, Some TelegramBadRequest)] \<or>
          new = [(SetMyCommands (base_en @ [newsletter_en]) (BotCommandScopeChat DEV_ID) None, None),
                 (SetMyCommands (base_ar @ [newsletter_ar]) (BotCommandScopeChat DEV_ID) (Some ''ar''), Some TelegramBadRequest)])"
proof -
  have *: "sent w' = sent (w\<lparr>heap := h, next_ref := k\<rparr>) @ new" for h k
    using assms(4) by simp
  show ?thesis
    using register_admin_bad_request [OF assms(3) [unfolded setup_commands_unfold] * assms(5) assms(6)]
    unfolding base_en_def base_ar_def
    by (auto simp add: eval_nat_numeral)
qed

lemma start_en_neq_ar: "start_en \<noteq> start_ar"
  by (simp add: start_en_def start_ar_def)

lemma ban_en_neq_ar: "ban_en \<noteq> ban_ar"
  by (simp add: ban_en_def ban_ar_def)

lemma command_names:
  "command start_en = ''start''" "command start_ar = ''start''"
  "command language_en = ''language''" "command language_ar = ''language''"
  "command ban_en = ''ban''" "command ban_ar = ''ban''"
  "command silent_en = ''silent''" "command silent_ar = ''silent''"
  "command information_en = ''information''" "command information_ar = ''information''"
  "command newsletter_en = ''newsletter''" "command newsletter_ar = ''newsletter''"
  by (simp_all add: start_en_def start_ar_def language_en_def language_ar_def ban_en_def
      ban_ar_def silent_en_def silent_ar_def information_en_def information_ar_def
      newsletter_en_def newsletter_ar_def)

section \<open>The text catalog\<close>

text \<open>
  C4. \<open>Text_init\<close> is total: it returns an instance for every string. For a code that is
  not a key of the supported languages, the instance is the one built for \<open>en\<close>, and its
  language code is \<open>en\<close>.
\<close>

theorem Text_init_unsupported_is_en:
  assumes "code \<notin> set (keys langs)"
  shows "Text_init langs code = Text_init langs ''en'' \<and>
         language_code (Text_init langs code) = ''en''"
  using assms by (simp add: Text_init_def)

theorem Text_init_unsupported_is_en_witness:
  "''fr'' \<notin> set (keys SUPPORTED_LANGUAGES) \<and>
   Text_init SUPPORTED_LANGUAGES ''fr'' = Text_init SUPPORTED_LANGUAGES ''en'' \<and>
   language_code (Text_init SUPPORTED_LANGUAGES ''fr'') = ''en''"
proof -
  have h: "''fr'' \<notin> set (keys SUPPORTED_LANGUAGES)"
    by (simp add: keys_SUPPORTED_LANGUAGES)
  show ?thesis
    using h Text_init_unsupported_is_en [OF h] by blast
qed

text \<open>
  C9. With the supported languages of the module, the language code of every instance is
  a supported one, and a supported code is kept as it is.
\<close>

theorem Text_init_language_is_supported:
  "language_code (Text_init SUPPORTED_LANGUAGES code) \<in> set (keys SUPPORTED_LANGUAGES) \<and>
   (code \<in> set (keys SUPPORTED_LANGUAGES) \<longrightarrow>
      language_code (Text_init SUPPORTED_LANGUAGES code) = code \<and>
      Text_init SUPPORTED_LANGUAGES code = \<lparr>language_code = code\<rparr>)"
  by (simp add: Text_init_def keys_SUPPORTED_LANGUAGES)

theorem Text_init_language_is_supported_witness:
  "''ar'' \<in> set (keys SUPPORTED_LANGUAGES) \<and>
   language_code (Text_init SUPPORTED_LANGUAGES ''ar'') = ''ar''"
proof -
  have h: "''ar'' \<in> set (keys SUPPORTED_LANGUAGES)"
    by (simp add: keys_SUPPORTED_LANGUAGES)
  show ?thesis
    using h Text_init_language_is_supported [of "''ar''"] by blast
qed

text \<open>
  C5. For every catalog (\<open>data\<close>), instance and key: \<open>get\<close> returns the text stored for the key
  under the language code of the instance when there is one; it raises \<open>KeyError\<close> of the key
  when the language has no such key (whatever the other languages hold), and \<open>KeyError\<close> of the
  language code when the catalog has no such language; and a text it returns is the one
  stored under that language and key.
\<close>

theorem get_returns_stored_text_or_raises:
  "(\<forall>texts s. map_of (data self) (language_code self) = Some texts \<and> map_of texts code = Some s \<longrightarrow>
      get data self code = Inr s) \<and>
   (\<forall>texts. map_of (data self) (language_code self) = Some texts \<and> map_of texts code = None \<longrightarrow>
      get data self code = Inl (KeyError code)) \<and>
   (map_of (data self) (language_code self) = None \<longrightarrow>
      get data self code = Inl (KeyError (language_code self))) \<and>
   (\<forall>s. get data self code = Inr s \<longrightarrow>
      (\<exists>texts. map_of (data self) (language_code self) = Some texts \<and> map_of texts code = Some s))"
  by (auto simp add: get_def getitem_def split: option.splits)

theorem get_returns_stored_text_or_raises_witness:
  "map_of [(''en'', [(''hello'', ''Hello'')]), (''ar'', [(''bye'', ''Bye'')])] ''ar'' =
     Some [(''bye'', ''Bye'')] \<and>
   map_of [(''bye'', ''Bye'')] ''hello'' = None \<and>
   get (\<lambda>_. [(''en'', [(''hello'', ''Hello'')]), (''ar'', [(''bye'', ''Bye'')])])
     (Text_init SUPPORTED_LANGUAGES ''ar'') ''hello'' = Inl (KeyError ''hello'') \<and>
   get (\<lambda>_. [(''en'', [(''hello'', ''Hello'')]), (''ar'', [(''bye'', ''Bye'')])])
     (Text_init SUPPORTED_LANGUAGES ''ar'') ''bye'' = Inr ''Bye''"
proof -
  let ?data = "\<lambda>_::Text. [(''en'', [(''hello'', ''Hello'')]), (''ar'', [(''bye'', ''Bye'')])]"
  let ?self = "Text_init SUPPORTED_LANGUAGES ''ar''"
  have l: "language_code ?self = ''ar''"
    by (simp add: Text_init_def keys_SUPPORTED_LANGUAGES)
  have h: "map_of (?data ?self) (language_code ?self) = Some [(''bye'', ''Bye'')]"
    by (simp add: l)
  have absent: "map_of [(''bye'', ''Bye'')] ''hello'' = None"
    by simp
  have present: "map_of [(''bye'', ''Bye'')] ''bye'' = Some ''Bye''"
    by simp
  have "get ?data ?self ''hello'' = Inl (KeyError ''hello'')"
    using get_returns_stored_text_or_raises [of ?data ?self "''hello''"] h absent by blast
  moreover have "get ?data ?self ''bye'' = Inr ''Bye''"
    using get_returns_stored_text_or_raises [of ?data ?self "''bye''"] h present by blast
  ultimately show ?thesis
    by simp
qed

text \<open>
  C8. \<open>get\<close> is a function of the catalog, the language code of the instance and the key:
  two instances with the same language code (whatever else they hold) give the same
  result for the same key, for any catalog that does not depend on the instance and
  for the message catalog in particular. It has no state to change.
\<close>

theorem get_depends_on_language_and_key_only:
  "(language_code a = language_code b \<longrightarrow> data a = data b \<longrightarrow> get data a code = get data b code) \<and>
   (language_code a' = language_code b' \<longrightarrow>
      get (TextMessage_data hbold) a' code = get (TextMessage_data hbold) b' code)"
  by (simp add: get_def TextMessage_data_def)

theorem get_depends_on_language_and_key_only_witness:
  "language_code (Text_init SUPPORTED_LANGUAGES ''fr'') = language_code (Text_init SUPPORTED_LANGUAGES ''en'') \<and>
   get (TextMessage_data id) (Text_init SUPPORTED_LANGUAGES ''fr'') ''main_menu'' =
   get (TextMessage_data id) (Text_init SUPPORTED_LANGUAGES ''en'') ''main_menu''"
proof -
  have h: "language_code (Text_init SUPPORTED_LANGUAGES ''fr'') =
      language_code (Text_init SUPPORTED_LANGUAGES ''en'')"
    by (simp add: Text_init_def keys_SUPPORTED_LANGUAGES)
  show ?thesis
    using h get_depends_on_language_and_key_only
      [of "Text_init SUPPORTED_LANGUAGES ''fr''" "Text_init SUPPORTED_LANGUAGES ''en''"
          "TextMessage_data id" "''main_menu''" "Text_init SUPPORTED_LANGUAGES ''fr''"
          "Text_init SUPPORTED_LANGUAGES ''en''" id]
    by blast
qed

text \<open>
  C6. The supported languages are \<open>en\<close> and \<open>ar\<close>; the message catalog built for \<open>fr\<close>
  answers \<open>message_sent\<close> with the English template, which is the text stored under \<open>en\<close> and
  \<open>message_sent\<close>.
\<close>

theorem get_message_sent_falls_back_to_en:
  "set (keys SUPPORTED_LANGUAGES) = {''en'', ''ar''} \<and>
   get (TextMessage_data hbold) (Text_init SUPPORTED_LANGUAGES ''fr'') ''message_sent'' =
     Inr ''<b>Message sent!</b> Expect a response.'' \<and>
   (\<exists>texts. getitem (TextMessage_data hbold self) ''en'' = Inr texts \<and>
      getitem texts ''message_sent'' = Inr ''<b>Message sent!</b> Expect a response.'')"
  by (simp add: get_def getitem_def Text_init_def keys_SUPPORTED_LANGUAGES TextMessage_data_def)

text \<open>
  C7. The message catalog has one table for each supported language, \<open>en\<close> and \<open>ar\<close>, and
  the two tables have the same keys (each key once).
\<close>

theorem TextMessage_keys_agree:
  "\<exists>en ar. keys (TextMessage_data hbold self) = keys SUPPORTED_LANGUAGES \<and>
     keys SUPPORTED_LANGUAGES = [''en'', ''ar''] \<and>
     getitem (TextMessage_data hbold self) ''en'' = Inr en \<and>
     getitem (TextMessage_data hbold self) ''ar'' = Inr ar \<and>
     set (keys en) = set (keys ar) \<and> distinct (keys en) \<and> distinct (keys ar)"
  by (simp add: getitem_def keys_def SUPPORTED_LANGUAGES_def TextMessage_data_def)

section \<open>The command registrar\<close>

text \<open>
  C10. \<open>commands\<close> has the keys \<open>en\<close> and \<open>ar\<close>. With more than one supported language each of
  its lists is \<open>start\<close>, \<open>language\<close>, and that is what a request for the private chats
  carries. With exactly one supported language each list is \<open>start\<close> alone, a request for
  the private chats carries \<open>start\<close> alone, and no request of \<open>setup\<close> carries a \<open>language\<close>
  command.
\<close>

theorem base_commands_depend_on_language_count:
  assumes "build_commands langs w = (tab, w1)"
      and "setup_commands langs client DEV_ID w = (res, w')"
      and "sent w' = sent w @ new"
  shows "\<exists>commands. tab = Inr commands \<and> keys commands = [''en'', ''ar''] \<and>
           (1 < length langs \<longrightarrow>
              contents w1 commands ''en'' = Some [start_en, language_en] \<and>
              contents w1 commands ''ar'' = Some [start_ar, language_ar] \<and>
              (\<forall>rq \<in> set (map fst new). scope_of rq = BotCommandScopeAllPrivateChats \<longrightarrow>
                 map command (commands_of rq) = [''start'', ''language''])) \<and>
           (length langs = 1 \<longrightarrow>
              contents w1 commands ''en'' = Some [start_en] \<and>
              contents w1 commands ''ar'' = Some [start_ar] \<and>
              (\<forall>rq \<in> set (map fst new). scope_of rq = BotCommandScopeAllPrivateChats \<longrightarrow>
                 map command (commands_of rq) = [''start'']) \<and>
              (\<forall>rq \<in> set (map fst new). ''language'' \<notin> set (map command (commands_of rq))))"
proof -
  have c: "tab = Inr [(''en'', next_ref w), (''ar'', Suc (next_ref w))]"
    and w1: "w1 = w\<lparr>heap := (heap w)
             (next_ref w := (if length langs > 1 then [start_en, language_en] else [start_en]),
              Suc (next_ref w) := (if length langs > 1 then [start_ar, language_ar] else [start_ar])),
        next_ref := Suc (Suc (next_ref w))\<rparr>"
    using assms(1) by (simp_all add: build_commands_run)
  let ?commands = "[(''en'', next_ref w), (''ar'', Suc (next_ref w))]"
  obtain new' where n: "sent w' = sent w @ new'" and
    p: "map fst new' = take (length new')
           [SetMyCommands ((if length langs > 1 then [start_en, language_en] else [start_en]) @ [newsletter_en]) (BotCommandScopeChat DEV_ID) None,
            SetMyCommands ((if length langs > 1 then [start_ar, language_ar] else [start_ar]) @ [newsletter_ar]) (BotCommandScopeChat DEV_ID) (Some ''ar''),
            SetMyCommands (if length langs > 1 then [start_en, language_en] else [start_en]) BotCommandScopeAllPrivateChats None,
            SetMyCommands (if length langs > 1 then [start_ar, language_ar] else [start_ar]) BotCommandScopeAllPrivateChats (Some ''ar''),
            SetMyCommands [ban_en, silent_en, information_en] BotCommandScopeAllGroupChats None,
            SetMyCommands [ban_ar, silent_ar, information_ar] BotCommandScopeAllGroupChats (Some ''ar'')]"
    using setup_requests [OF assms(2)] by blast
  from n assms(3) have "new' = new" by simp
  with p have sub: "set (map fst new) \<subseteq> set
           [SetMyCommands ((if length langs > 1 then [start_en, language_en] else [start_en]) @ [newsletter_en]) (BotCommandScopeChat DEV_ID) None,
            SetMyCommands ((if length langs > 1 then [start_ar, language_ar] else [start_ar]) @ [newsletter_ar]) (BotCommandScopeChat DEV_ID) (Some ''ar''),
            SetMyCommands (if length langs > 1 then [start_en, language_en] else [start_en]) BotCommandScopeAllPrivateChats None,
            SetMyCommands (if length langs > 1 then [start_ar, language_ar] else [start_ar]) BotCommandScopeAllPrivateChats (Some ''ar''),
            SetMyCommands [ban_en, silent_en, information_en] BotCommandScopeAllGroupChats None,
            SetMyCommands [ban_ar, silent_ar, information_ar] BotCommandScopeAllGroupChats (Some ''ar'')]"
    by (metis set_take_subset)
  have mem: "rq \<in> set (map fst new) \<Longrightarrow> rq \<in> set
           [SetMyCommands ((if length langs > 1 then [start_en, language_en] else [start_en]) @ [newsletter_en]) (BotCommandScopeChat DEV_ID) None,
            SetMyCommands ((if length langs > 1 then [start_ar, language_ar] else [start_ar]) @ [newsletter_ar]) (BotCommandScopeChat DEV_ID) (Some ''ar''),
            SetMyCommands (if length langs > 1 then [start_en, language_en] else [start_en]) BotCommandScopeAllPrivateChats None,
            SetMyCommands (if length langs > 1 then [start_ar, language_ar] else [start_ar]) BotCommandScopeAllPrivateChats (Some ''ar''),
            SetMyCommands [ban_en, silent_en, information_en] BotCommandScopeAllGroupChats None,
            SetMyCommands [ban_ar, silent_ar, information_ar] BotCommandScopeAllGroupChats (Some ''ar'')]" for rq
    using sub by blast
  have many: "1 < length langs \<Longrightarrow> rq \<in> set (map fst new) \<Longrightarrow>
      scope_of rq = BotCommandScopeAllPrivateChats \<Longrightarrow>
      map command (commands_of rq) = [''start'', ''language'']" for rq
    using mem [of rq] by (auto simp add: command_names)
  have one: "length langs = 1 \<Longrightarrow> rq \<in> set (map fst new) \<Longrightarrow>
      (scope_of rq = BotCommandScopeAllPrivateChats \<longrightarrow> map command (commands_of rq) = [''start''])
      \<and> ''language'' \<notin> set (map command (commands_of rq))" for rq
    using mem [of rq] by (auto simp add: command_names)
  have tabs: "1 < length langs \<Longrightarrow>
              contents w1 ?commands ''en'' = Some [start_en, language_en] \<and>
              contents w1 ?commands ''ar'' = Some [start_ar, language_ar]"
      "length langs = 1 \<Longrightarrow>
              contents w1 ?commands ''en'' = Some [start_en] \<and>
              contents w1 ?commands ''ar'' = Some [start_ar]"
    by (simp_all add: contents_def w1)
  show ?thesis
    apply (rule exI [of _ ?commands])
    using c tabs many one by (simp add: keys_def)
qed

theorem base_commands_depend_on_language_count_witness:
  "1 < length SUPPORTED_LANGUAGES \<and>
   contents (snd (build_commands SUPPORTED_LANGUAGES empty_world)) [(''en'', 0), (''ar'', 1)] ''ar'' =
     Some [start_ar, language_ar] \<and>
   length [(''en'', ''English'')] = 1 \<and>
   contents (snd (build_commands [(''en'', ''English'')] empty_world)) [(''en'', 0), (''ar'', 1)] ''ar'' =
     Some [start_ar]"
proof -
  have two: "1 < length SUPPORTED_LANGUAGES"
    by (simp add: length_SUPPORTED_LANGUAGES)
  have k: "fst (build_commands langs empty_world) = Inr [(''en'', 0), (''ar'', 1)]" for langs
    by (simp add: build_commands_run empty_world_def)
  have p: "build_commands langs empty_world =
      (fst (build_commands langs empty_world), snd (build_commands langs empty_world))" for langs
    by simp
  have r: "setup_commands langs accepting_bot 42 empty_world =
      (fst (setup_commands langs accepting_bot 42 empty_world),
       snd (setup_commands langs accepting_bot 42 empty_world))" for langs
    by simp
  have s: "sent (snd (setup_commands langs accepting_bot 42 empty_world)) =
      sent empty_world @ sent (snd (setup_commands langs accepting_bot 42 empty_world))" for langs
    by (simp add: empty_world_def)
  have "contents (snd (build_commands SUPPORTED_LANGUAGES empty_world)) [(''en'', 0), (''ar'', 1)] ''ar'' =
     Some [start_ar, language_ar]"
    using base_commands_depend_on_language_count [OF p [of SUPPORTED_LANGUAGES] r [of SUPPORTED_LANGUAGES] s [of SUPPORTED_LANGUAGES]]
      two k [of SUPPORTED_LANGUAGES] by auto
  moreover have "contents (snd (build_commands [(''en'', ''English'')] empty_world)) [(''en'', 0), (''ar'', 1)] ''ar'' =
     Some [start_ar]"
    using base_commands_depend_on_language_count [OF p [of "[(''en'', ''English'')]"] r [of "[(''en'', ''English'')]"]
        s [of "[(''en'', ''English'')]"]]
      k [of "[(''en'', ''English'')]"] by auto
  ultimately show ?thesis
    using two by simp
qed

text \<open>
  C2. For every supported language code \<open>L\<close>, the list that \<open>admin_commands\<close> holds for \<open>L\<close>
  is the list that \<open>commands\<close> holds for \<open>L\<close> followed by one more entry, the newsletter
  command; building \<open>admin_commands\<close> cannot fail, and the list of \<open>commands\<close> for \<open>L\<close> is the
  same before (state \<open>w2\<close>) and after (state \<open>w3\<close>). These dicts in this state are what
  \<open>setup\<close> goes on to register.
\<close>

theorem admin_commands_are_base_plus_newsletter:
  assumes "build_commands SUPPORTED_LANGUAGES w = (Inr commands, w1)"
      and "build_group_commands w1 = (Inr group_commands, w2)"
      and "build_admin_commands commands w2 = (res, w3)"
  shows "\<exists>admin_commands. res = Inr admin_commands \<and>
           (\<forall>L \<in> set (keys SUPPORTED_LANGUAGES). \<exists>base entry.
              contents w2 commands L = Some base \<and>
              contents w3 admin_commands L = Some (base @ [entry]) \<and>
              command entry = ''newsletter'' \<and>
              contents w3 commands L = Some base) \<and>
           setup_commands SUPPORTED_LANGUAGES client DEV_ID w =
             register client DEV_ID commands group_commands admin_commands w3"
proof -
  have c: "commands = [(''en'', next_ref w), (''ar'', Suc (next_ref w))]"
    and w1: "w1 = w\<lparr>heap := (heap w)(next_ref w := [start_en, language_en],
                   Suc (next_ref w) := [start_ar, language_ar]),
                  next_ref := Suc (Suc (next_ref w))\<rparr>"
    using assms(1) by (simp_all add: build_commands_run length_SUPPORTED_LANGUAGES)
  have g: "group_commands = [(''en'', next_ref w + 2), (''ar'', next_ref w + 3)]"
    and w2: "w2 = w1\<lparr>heap := (heap w1)(next_ref w + 2 := [ban_en, silent_en, information_en],
                   next_ref w + 3 := [ban_ar, silent_ar, information_ar]),
                  next_ref := next_ref w + 4\<rparr>"
    using assms(2) by (simp_all add: build_group_commands_run w1 eval_nat_numeral)
  have a: "res = Inr [(''en'', next_ref w + 6), (''ar'', next_ref w + 9)]"
    and w3: "w3 = w2\<lparr>heap := (heap w2)
             (next_ref w + 4 := [start_en, language_en],
              next_ref w + 5 := [newsletter_en],
              next_ref w + 6 := [start_en, language_en, newsletter_en],
              next_ref w + 7 := [start_ar, language_ar],
              next_ref w + 8 := [newsletter_ar],
              next_ref w + 9 := [start_ar, language_ar, newsletter_ar]),
        next_ref := next_ref w + 10\<rparr>"
    using assms(3) by (simp_all add: c w2 w1 build_admin_commands_run eval_nat_numeral)
  let ?adm = "[(''en'', next_ref w + 6), (''ar'', next_ref w + 9)]"
  have en: "contents w2 commands ''en'' = Some [start_en, language_en]"
      "contents w3 ?adm ''en'' = Some ([start_en, language_en] @ [newsletter_en])"
      "contents w3 commands ''en'' = Some [start_en, language_en]"
    by (simp_all add: contents_def c w3 w2 w1)
  have ar: "contents w2 commands ''ar'' = Some [start_ar, language_ar]"
      "contents w3 ?adm ''ar'' = Some ([start_ar, language_ar] @ [newsletter_ar])"
      "contents w3 commands ''ar'' = Some [start_ar, language_ar]"
    by (simp_all add: contents_def c w3 w2 w1)
  have all: "\<forall>L \<in> set (keys SUPPORTED_LANGUAGES). \<exists>base entry.
              contents w2 commands L = Some base \<and>
              contents w3 ?adm L = Some (base @ [entry]) \<and>
              command entry = ''newsletter'' \<and>
              contents w3 commands L = Some base"
    using en ar command_names(11,12) by (simp add: keys_SUPPORTED_LANGUAGES)
  have run: "setup_commands SUPPORTED_LANGUAGES client DEV_ID w =
             register client DEV_ID commands group_commands ?adm w3"
    by (simp add: setup_commands_unfold length_SUPPORTED_LANGUAGES c g w3 w2 w1 eval_nat_numeral)
  show ?thesis
    using a all run by blast
qed

theorem admin_commands_are_base_plus_newsletter_witness:
  "fst (build_commands SUPPORTED_LANGUAGES empty_world) = Inr [(''en'', 0), (''ar'', 1)] \<and>
   fst (build_group_commands (snd (build_commands SUPPORTED_LANGUAGES empty_world))) =
     Inr [(''en'', 2), (''ar'', 3)] \<and>
   fst (build_admin_commands [(''en'', 0), (''ar'', 1)]
          (snd (build_group_commands (snd (build_commands SUPPORTED_LANGUAGES empty_world))))) =
     Inr [(''en'', 6), (''ar'', 9)] \<and>
   (\<exists>entry.
      contents (snd (build_admin_commands [(''en'', 0), (''ar'', 1)]
          (snd (build_group_commands (snd (build_commands SUPPORTED_LANGUAGES empty_world))))))
        [(''en'', 6), (''ar'', 9)] ''ar'' = Some ([start_ar, language_ar] @ [entry]) \<and>
      command entry = ''newsletter'')"
proof -
  let ?p1 = "build_commands SUPPORTED_LANGUAGES empty_world"
  let ?p2 = "build_group_commands (snd ?p1)"
  let ?p3 = "build_admin_commands [(''en'', 0), (''ar'', 1)] (snd ?p2)"
  have h1: "?p1 = (Inr [(''en'', 0), (''ar'', 1)], snd ?p1)"
    by (simp add: build_commands_run empty_world_def)
  have h2: "?p2 = (Inr [(''en'', 2), (''ar'', 3)], snd ?p2)"
    by (simp add: build_commands_run build_group_commands_run empty_world_def eval_nat_numeral)
  have h3: "?p3 = (fst ?p3, snd ?p3)"
    by simp
  have r3: "fst ?p3 = Inr [(''en'', 6), (''ar'', 9)]"
    by (simp add: build_commands_run build_group_commands_run build_admin_commands_run
        empty_world_def eval_nat_numeral)
  have base: "contents (snd ?p2) [(''en'', 0), (''ar'', 1)] ''ar'' = Some [start_ar, language_ar]"
    by (simp add: contents_def build_commands_run build_group_commands_run
        empty_world_def eval_nat_numeral length_SUPPORTED_LANGUAGES)
  obtain admin_commands where a: "fst ?p3 = Inr admin_commands"
    and all: "\<forall>L \<in> set (keys SUPPORTED_LANGUAGES). \<exists>base entry.
              contents (snd ?p2) [(''en'', 0), (''ar'', 1)] L = Some base \<and>
              contents (snd ?p3) admin_commands L = Some (base @ [entry]) \<and>
              command entry = ''newsletter'' \<and>
              contents (snd ?p3) [(''en'', 0), (''ar'', 1)] L = Some base"
    using admin_commands_are_base_plus_newsletter [OF h1 h2 h3] by blast
  from a r3 have adm: "admin_commands = [(''en'', 6), (''ar'', 9)]" by simp
  have "''ar'' \<in> set (keys SUPPORTED_LANGUAGES)"
    by (simp add: keys_SUPPORTED_LANGUAGES)
  with all have "\<exists>base entry.
              contents (snd ?p2) [(''en'', 0), (''ar'', 1)] ''ar'' = Some base \<and>
              contents (snd ?p3) admin_commands ''ar'' = Some (base @ [entry]) \<and>
              command entry = ''newsletter''"
    by blast
  with base adm have "\<exists>entry.
      contents (snd ?p3) [(''en'', 6), (''ar'', 9)] ''ar'' = Some ([start_ar, language_ar] @ [entry]) \<and>
      command entry = ''newsletter''"
    by auto
  then show ?thesis
    using h1 h2 r3 by (simp add: prod_eq_iff)
qed

text \<open>
  C1. A run of \<open>setup\<close> that returns normally has sent exactly six requests, three for each
  of the two supported languages, every one accepted. For every supported language code
  \<open>L\<close> exactly one of them is scoped to the admin chat and carries the admin list of \<open>L\<close>,
  exactly one is scoped to all private chats and carries the base list of \<open>L\<close>, and exactly
  one is scoped to all group chats and carries the group list of \<open>L\<close>. The lists are those
  the three dicts hold once they are built (state \<open>w3\<close>). The requests with the English lists
  pass no language code, those with the Arabic lists pass \<open>ar\<close>.
\<close>

theorem setup_one_call_per_scope_and_language:
  assumes "build_commands SUPPORTED_LANGUAGES w = (Inr commands, w1)"
      and "build_group_commands w1 = (Inr group_commands, w2)"
      and "build_admin_commands commands w2 = (Inr admin_commands, w3)"
      and "setup_commands SUPPORTED_LANGUAGES client DEV_ID w = (Inr (), w')"
  shows "\<exists>new. sent w' = sent w @ map (\<lambda>rq. (rq, None)) new \<and>
           length new = 3 * length SUPPORTED_LANGUAGES \<and>
           (\<forall>L \<in> set (keys SUPPORTED_LANGUAGES).
              calls_with new (BotCommandScopeChat DEV_ID) (contents w3 admin_commands L) = 1 \<and>
              calls_with new BotCommandScopeAllPrivateChats (contents w3 commands L) = 1 \<and>
              calls_with new BotCommandScopeAllGroupChats (contents w3 group_commands L) = 1) \<and>
           map language_code_of new = [None, Some ''ar'', None, Some ''ar'', None, Some ''ar'']"
proof -
  let ?new = "[SetMyCommands [start_en, language_en, newsletter_en] (BotCommandScopeChat DEV_ID) None,
            SetMyCommands [start_ar, language_ar, newsletter_ar] (BotCommandScopeChat DEV_ID) (Some ''ar''),
            SetMyCommands [start_en, language_en] BotCommandScopeAllPrivateChats None,
            SetMyCommands [start_ar, language_ar] BotCommandScopeAllPrivateChats (Some ''ar''),
            SetMyCommands [ban_en, silent_en, information_en] BotCommandScopeAllGroupChats None,
            SetMyCommands [ban_ar, silent_ar, information_ar] BotCommandScopeAllGroupChats (Some ''ar'')]"
  have sent: "sent w' = sent w @ map (\<lambda>rq. (rq, None)) ?new"
    using setup_success [OF assms(4)] by (simp add: length_SUPPORTED_LANGUAGES)
  have c: "commands = [(''en'', next_ref w), (''ar'', Suc (next_ref w))]"
    and w1: "w1 = w\<lparr>heap := (heap w)(next_ref w := [start_en, language_en],
                   Suc (next_ref w) := [start_ar, language_ar]),
                  next_ref := Suc (Suc (next_ref w))\<rparr>"
    using assms(1) by (simp_all add: build_commands_run length_SUPPORTED_LANGUAGES)
  have g: "group_commands = [(''en'', next_ref w + 2), (''ar'', next_ref w + 3)]"
    and w2: "w2 = w1\<lparr>heap := (heap w1)(next_ref w + 2 := [ban_en, silent_en, information_en],
                   next_ref w + 3 := [ban_ar, silent_ar, information_ar]),
                  next_ref := next_ref w + 4\<rparr>"
    using assms(2) by (simp_all add: build_group_commands_run w1 eval_nat_numeral)
  have a: "admin_commands = [(''en'', next_ref w + 6), (''ar'', next_ref w + 9)]"
    and w3: "w3 = w2\<lparr>heap := (heap w2)
             (next_ref w + 4 := [start_en, language_en],
              next_ref w + 5 := [newsletter_en],
              next_ref w + 6 := [start_en, language_en, newsletter_en],
              next_ref w + 7 := [start_ar, language_ar],
              next_ref w + 8 := [newsletter_ar],
              next_ref w + 9 := [start_ar, language_ar, newsletter_ar]),
        next_ref := next_ref w + 10\<rparr>"
    using assms(3) by (simp_all add: c w2 w1 build_admin_commands_run eval_nat_numeral)
  have adm: "contents w3 admin_commands ''en'' = Some [start_en, language_en, newsletter_en]"
     "contents w3 admin_commands ''ar'' = Some [start_ar, language_ar, newsletter_ar]"
    by (simp_all add: contents_def a w3)
  have base: "contents w3 commands ''en'' = Some [start_en, language_en]"
     "contents w3 commands ''ar'' = Some [start_ar, language_ar]"
    by (simp_all add: contents_def c w3 w2 w1)
  have grp: "contents w3 group_commands ''en'' = Some [ban_en, silent_en, information_en]"
     "contents w3 group_commands ''ar'' = Some [ban_ar, silent_ar, information_ar]"
    by (simp_all add: contents_def g w3 w2)
  have counts: "\<forall>L \<in> set (keys SUPPORTED_LANGUAGES).
              calls_with ?new (BotCommandScopeChat DEV_ID) (contents w3 admin_commands L) = 1 \<and>
              calls_with ?new BotCommandScopeAllPrivateChats (contents w3 commands L) = 1 \<and>
              calls_with ?new BotCommandScopeAllGroupChats (contents w3 group_commands L) = 1"
    using start_en_neq_ar ban_en_neq_ar
    by (simp add: keys_SUPPORTED_LANGUAGES adm base grp calls_with_def)
  show ?thesis
    apply (rule exI [of _ ?new])
    using sent counts by (simp add: length_SUPPORTED_LANGUAGES)
qed

theorem setup_one_call_per_scope_and_language_witness:
  "fst (setup_commands SUPPORTED_LANGUAGES accepting_bot 42 empty_world) = Inr () \<and>
   length (sent (snd (setup_commands SUPPORTED_LANGUAGES accepting_bot 42 empty_world))) = 6 \<and>
   calls_with (map fst (sent (snd (setup_commands SUPPORTED_LANGUAGES accepting_bot 42 empty_world))))
     (BotCommandScopeChat 42) (Some [start_ar, language_ar, newsletter_ar]) = 1"
proof -
  let ?r = "setup_commands SUPPORTED_LANGUAGES accepting_bot 42 empty_world"
  let ?p1 = "build_commands SUPPORTED_LANGUAGES empty_world"
  let ?p2 = "build_group_commands (snd ?p1)"
  let ?p3 = "build_admin_commands [(''en'', 0), (''ar'', 1)] (snd ?p2)"
  have ok: "fst ?r = Inr ()"
    by (simp add: setup_commands_unfold register_def prog_defs accepting_bot_def)
  then have run: "?r = (Inr (), snd ?r)"
    by (simp add: prod_eq_iff)
  have h1: "?p1 = (Inr [(''en'', 0), (''ar'', 1)], snd ?p1)"
    by (simp add: build_commands_run empty_world_def)
  have h2: "?p2 = (Inr [(''en'', 2), (''ar'', 3)], snd ?p2)"
    by (simp add: build_commands_run build_group_commands_run empty_world_def eval_nat_numeral)
  have h3: "?p3 = (Inr [(''en'', 6), (''ar'', 9)], snd ?p3)"
    by (simp add: build_commands_run build_group_commands_run build_admin_commands_run
        empty_world_def eval_nat_numeral)
  have ar: "contents (snd ?p3) [(''en'', 6), (''ar'', 9)] ''ar'' =
      Some [start_ar, language_ar, newsletter_ar]"
    by (simp add: contents_def build_commands_run build_group_commands_run
        build_admin_commands_run empty_world_def eval_nat_numeral length_SUPPORTED_LANGUAGES)
  obtain new where new: "sent (snd ?r) = sent empty_world @ map (\<lambda>rq. (rq, None)) new"
      "length new = 3 * length SUPPORTED_LANGUAGES"
      "\<forall>L \<in> set (keys SUPPORTED_LANGUAGES).
          calls_with new (BotCommandScopeChat 42) (contents (snd ?p3) [(''en'', 6), (''ar'', 9)] L) = 1 \<and>
          calls_with new BotCommandScopeAllPrivateChats (contents (snd ?p3) [(''en'', 0), (''ar'', 1)] L) = 1 \<and>
          calls_with new BotCommandScopeAllGroupChats (contents (snd ?p3) [(''en'', 2), (''ar'', 3)] L) = 1"
    using setup_one_call_per_scope_and_language [OF h1 h2 h3 run] by blast
  have m: "map fst (sent (snd ?r)) = new"
    using new(1) by (simp add: empty_world_def comp_def)
  have "calls_with new (BotCommandScopeChat 42) (Some [start_ar, language_ar, newsletter_ar]) = 1"
    using new(3) ar by (simp add: keys_SUPPORTED_LANGUAGES)
  moreover have "length (sent (snd ?r)) = 6"
    using new(1,2) by (simp add: empty_world_def length_SUPPORTED_LANGUAGES)
  ultimately show ?thesis
    using ok m by simp
qed

text \<open>
  C3, as the code has it. If a request of \<open>setup\<close> that is scoped to the admin chat is
  answered by \<open>TelegramBadRequest\<close>, then \<open>setup\<close> raises \<open>ValueError\<close> with the message
  \<open>Chat with DEV_ID <id> not found.\<close>, that request is the last one sent, and every request
  sent is scoped to the admin chat: no request for the private chats or the group chats
  is made.
\<close>

theorem setup_admin_bad_request_aborts:
  assumes "setup_commands langs client DEV_ID w = (res, w')"
      and "sent w' = sent w @ new"
      and "(rq, Some TelegramBadRequest) \<in> set new"
      and "scope_of rq = BotCommandScopeChat DEV_ID"
  shows "res = Inl (ValueError (''Chat with DEV_ID '' @ str_int DEV_ID @ '' not found.'')) \<and>
         last new = (rq, Some TelegramBadRequest) \<and>
         length new \<le> 2 \<and>
         (\<forall>(r, a) \<in> set new. scope_of r = BotCommandScopeChat DEV_ID)"
  using setup_admin_bad_request [OF assms] assms(3)
  by auto

theorem setup_admin_bad_request_aborts_witness:
  "sent (snd (setup_commands SUPPORTED_LANGUAGES
       (\<lambda>history rq. if history = [] then None else Some TelegramBadRequest) 42 empty_world)) =
     [(SetMyCommands [start_en, language_en, newsletter_en] (BotCommandScopeChat 42) None, None),
      (SetMyCommands [start_ar, language_ar, newsletter_ar] (BotCommandScopeChat 42) (Some ''ar''),
       Some TelegramBadRequest)] \<and>
   fst (setup_commands SUPPORTED_LANGUAGES
       (\<lambda>history rq. if history = [] then None else Some TelegramBadRequest) 42 empty_world) =
     Inl (ValueError ''Chat with DEV_ID 42 not found.'')"
proof -
  let ?client = "\<lambda>history rq. if history = [] then None else Some TelegramBadRequest"
  let ?r = "setup_commands SUPPORTED_LANGUAGES ?client 42 empty_world"
  let ?rq = "SetMyCommands [start_ar, language_ar, newsletter_ar] (BotCommandScopeChat 42) (Some ''ar'')"
  let ?new = "[(SetMyCommands [start_en, language_en, newsletter_en] (BotCommandScopeChat 42) None, None),
      (?rq, Some TelegramBadRequest)]"
  have run: "?r = (fst ?r, snd ?r)" by simp
  have s: "sent (snd ?r) = ?new"
    by (simp add: setup_commands_unfold length_SUPPORTED_LANGUAGES register_def prog_defs
        empty_world_def)
  then have s': "sent (snd ?r) = sent empty_world @ ?new"
    by (simp add: empty_world_def)
  have m: "(?rq, Some TelegramBadRequest) \<in> set ?new" by simp
  have sc: "scope_of ?rq = BotCommandScopeChat 42" by simp
  have "fst ?r = Inl (ValueError (''Chat with DEV_ID '' @ str_int 42 @ '' not found.''))"
    using setup_admin_bad_request_aborts [OF run s' m sc] by blast
  then show ?thesis
    using s by (simp add: str_int_def)
qed

text \<open>
  C3 as stated says that the private and group registrations are still attempted after
  the failure. On a platform where the admin chat does not resolve, and which would accept
  the private and group requests, the run ends with the \<open>ValueError\<close> after a single request.
\<close>

theorem setup_admin_bad_request_counterexample:
  "fst (setup_commands SUPPORTED_LANGUAGES unknown_chat_bot 42 empty_world) =
     Inl (ValueError ''Chat with DEV_ID 42 not found.'') \<and>
   sent (snd (setup_commands SUPPORTED_LANGUAGES unknown_chat_bot 42 empty_world)) =
     [(SetMyCommands [start_en, language_en, newsletter_en] (BotCommandScopeChat 42) None,
       Some TelegramBadRequest)] \<and>
   map (scope_of \<circ> fst)
     (sent (snd (setup_commands SUPPORTED_LANGUAGES unknown_chat_bot 42 empty_world))) =
     [BotCommandScopeChat 42] \<and>
   unknown_chat_bot [] (SetMyCommands [start_en, language_en] BotCommandScopeAllPrivateChats None) = None"
  by (simp add: setup_commands_unfold length_SUPPORTED_LANGUAGES register_def prog_defs
      unknown_chat_bot_def empty_world_def str_int_def)

end
